theory Spec2Isabelle
  imports Main
begin

section \<open>The Jira dashboard backend router\<close>

text \<open>
  A shallow embedding of \<^verbatim>\<open>plugins/jira-dashboard-backend/src/service/router.ts\<close>.
  Each route handler is a function from the store shared between requests (the plugin
  cache and a trace of what the handler did) to the outcome of the request and the new
  store. A rejected promise is a value \<open>Inl e\<close>; an \<^verbatim>\<open>await\<close> outside a
  \<^verbatim>\<open>try\<close> hands it to the router's error middleware, which is the outcome
  \<open>Propagated e\<close>.
\<close>

subsection \<open>Data\<close>

datatype exn = Error string

text \<open>An entity as the handlers read it: \<^verbatim>\<open>entity.metadata.annotations\<close>, which may be
  undefined.\<close>

record entity =
  annotations :: "(string \<rightharpoonup> string) option"

text \<open>The four annotation names that \<^verbatim>\<open>getAnnotations(config)\<close> is destructured into.\<close>

record config =
  projectKeyAnnotation :: string
  componentsAnnotation :: string
  componentRoadieAnnotation :: string
  filtersAnnotation :: string

record request =
  kind :: string
  namespace :: string
  name :: string

record project =
  projectKey :: string
  projectName :: string
  avatarUrls :: "string \<rightharpoonup> string"

datatype issue = Issue string

text \<open>Modelled from the spec: the type \<^verbatim>\<open>Filter\<close> is imported from the common package;
  the spec describes a filter as a (field, operator, value) triple.\<close>

record jira_filter =
  field :: string
  operator :: string
  fvalue :: string

record user_identity =
  userEntityRef :: string

record identity_response =
  identity :: "user_identity option"

text \<open>The response of the image fetch: the header read by
  \<^verbatim>\<open>avatar.headers.get('content-type')\<close> and the body stream, which either delivers its
  bytes or fails.\<close>

record avatar_response =
  contentType :: "string option"
  body :: "exn + string"

datatype level = Info | Warn | Err

text \<open>What a handler is seen to do: the logger calls and the calls that leave for the
  issue tracker.\<close>

datatype event =
    Log level string
  | GetProject "string option"
  | ResolveFilters "string list"
  | IssuesByFilters string "jira_filter list"
  | IssuesByComponents string "string list"
  | FetchAvatar "string option"

text \<open>Resolving the named filters counts as a call that may leave for the issue tracker.\<close>

fun is_tracker_call :: "event \<Rightarrow> bool" where
  "is_tracker_call (Log l m) = False"
| "is_tracker_call (GetProject k) = True"
| "is_tracker_call (ResolveFilters ns) = True"
| "is_tracker_call (IssuesByFilters k fs) = True"
| "is_tracker_call (IssuesByComponents k cs) = True"
| "is_tracker_call (FetchAvatar u) = True"

definition tracker_calls :: "event list \<Rightarrow> event list" where
  "tracker_calls tr = filter is_tracker_call tr"

text \<open>How often the issue tracker was asked for the project of a key.\<close>

definition project_calls :: "string option \<Rightarrow> event list \<Rightarrow> nat" where
  "project_calls k tr = length (filter (\<lambda>ev. ev = GetProject k) tr)"

datatype json =
    ErrorObj string
  | Str string
  | JiraResponse "project option" "issue list"

text \<open>
  How a request ends: \<open>Responded status body\<close> for \<^verbatim>\<open>response.status(..).json(..)\<close>
  (\<^verbatim>\<open>response.json\<close> alone answers 200), \<open>Propagated e\<close> when a rejection reaches the
  error middleware, \<open>Piped contentType bytes\<close> when the avatar stream is piped to the end,
  and \<open>PipeFailed contentType status\<close> when the pipeline's callback sends a status.
\<close>

datatype outcome =
    Responded nat json
  | Propagated exn
  | Piped string string
  | PipeFailed string nat

subsection \<open>The collaborators of one request\<close>

text \<open>
  The services the router is built from and the helpers it imports from
  \<^verbatim>\<open>../filters\<close>, \<^verbatim>\<open>../api\<close> and \<^verbatim>\<open>./service\<close> are parameters: every one may answer
  anything, and every asynchronous one may reject. \<open>now\<close> is the clock at the request.
\<close>

record env =
  now :: nat
  stringifyEntityRef :: "string \<Rightarrow> string \<Rightarrow> string \<Rightarrow> string"
  getToken :: "exn + string"
  getEntityByRef :: "string \<Rightarrow> string \<Rightarrow> exn + entity option"
  getIdentity :: "request \<Rightarrow> exn + identity_response option"
  getDefaultFilters :: "config \<Rightarrow> string option \<Rightarrow> jira_filter list"
  getFiltersFromAnnotations :: "string list \<Rightarrow> config \<Rightarrow> exn + jira_filter list"
  getIssuesFromFilters :: "string \<Rightarrow> jira_filter list \<Rightarrow> config \<Rightarrow> exn + issue list"
  getIssuesFromComponents :: "string \<Rightarrow> string list \<Rightarrow> config \<Rightarrow> exn + issue list"
  getProjectInfo :: "string option \<Rightarrow> config \<Rightarrow> exn + project option"
  getProjectAvatar :: "string option \<Rightarrow> config \<Rightarrow> exn + avatar_response"

subsection \<open>The store shared by requests\<close>

text \<open>The plugin cache keeps each value with the time it expires at.\<close>

record state =
  cache :: "string option \<rightharpoonup> project \<times> nat"
  trace :: "event list"

record cache_client =
  defaultTtl :: nat

definition DEFAULT_TTL :: nat where
  "DEFAULT_TTL = 1000 * 60"

definition cache_client :: cache_client where
  "cache_client = \<lparr>defaultTtl = DEFAULT_TTL\<rparr>"

text \<open>Modelled from the spec: the cache store is a key-value cache with get, set and a
  time to live. An entry set at time \<open>t\<close> is returned up to and including time
  \<open>t + ttl\<close> and is gone afterwards.\<close>

definition cache_get :: "nat \<Rightarrow> string option \<Rightarrow> state \<Rightarrow> project option" where
  "cache_get t k st =
     (case cache st k of
        None \<Rightarrow> None
      | Some (v, expires) \<Rightarrow> if t > expires then None else Some v)"

definition cache_set :: "cache_client \<Rightarrow> nat \<Rightarrow> string option \<Rightarrow> project \<Rightarrow> state \<Rightarrow> state" where
  "cache_set c t k v st = st\<lparr>cache := (cache st)(k \<mapsto> (v, t + defaultTtl c))\<rparr>"

definition emit :: "event \<Rightarrow> state \<Rightarrow> state" where
  "emit ev st = st\<lparr>trace := trace st @ [ev]\<rparr>"

subsection \<open>JavaScript values\<close>

text \<open>\<^verbatim>\<open>s.split(',')\<close>: one piece more than there are commas, so never the empty list.\<close>

fun split_comma :: "string \<Rightarrow> string list" where
  "split_comma [] = [[]]"
| "split_comma (c # cs) =
     (if c = CHR '','' then [] # split_comma cs
      else (case split_comma cs of
              [] \<Rightarrow> [[c]]
            | w # ws \<Rightarrow> (c # w) # ws))"

text \<open>\<^verbatim>\<open>entity.metadata.annotations?.[k]\<close>\<close>

definition annotation :: "entity \<Rightarrow> string \<Rightarrow> string option" where
  "annotation e k = (case annotations e of None \<Rightarrow> None | Some m \<Rightarrow> m k)"

text \<open>An undefined value inside a template string.\<close>

definition show_key :: "string option \<Rightarrow> string" where
  "show_key k = (case k of None \<Rightarrow> ''undefined'' | Some s \<Rightarrow> s)"

text \<open>\<^verbatim>\<open>userIdentity?.identity?.userEntityRef\<close>\<close>

definition userEntityRef_of :: "identity_response option \<Rightarrow> string option" where
  "userEntityRef_of u =
     (case u of
        None \<Rightarrow> None
      | Some r \<Rightarrow> (case identity r of None \<Rightarrow> None | Some i \<Rightarrow> Some (userEntityRef i)))"

subsection \<open>The project lookup\<close>

text \<open>
  Modelled from the spec: \<^verbatim>\<open>getProjectResponse\<close> of \<^verbatim>\<open>./service\<close> is not among the
  sources. The spec describes a read-through cache: on a hit the cached value is
  returned without a network call; on a miss the issue tracker is called, the result is
  stored under the client's time to live and returned; a failed lookup fails and is not
  cached, only successful lookups are. The issue tracker's call is the parameter
  \<open>getProjectInfo\<close>: it rejects (\<open>Inl\<close>), or answers without a project, which is handed
  on uncached for the avatar handler's test \<^verbatim>\<open>!projectResponse\<close>, or answers with one.
\<close>

definition getProjectResponse ::
  "env \<Rightarrow> string option \<Rightarrow> config \<Rightarrow> cache_client \<Rightarrow> state \<Rightarrow> (exn + project option) \<times> state" where
  "getProjectResponse env k cfg c st =
     (case cache_get (now env) k st of
        Some p \<Rightarrow> (Inr (Some p), st)
      | None \<Rightarrow>
          (case getProjectInfo env k cfg of
             Inl e \<Rightarrow> (Inl e, emit (GetProject k) st)
           | Inr None \<Rightarrow> (Inr None, emit (GetProject k) st)
           | Inr (Some p) \<Rightarrow>
               (Inr (Some p), cache_set c (now env) k p (emit (GetProject k) st))))"

text \<open>
  Modelled from the spec: the lookup is not atomic. It awaits the issue tracker between
  reading the cache and storing the answer, and the spec says that two simultaneous
  requests for an uncached key may both call the issue tracker. \<open>getProjectResponse_start\<close>
  is the lookup up to that await, \<open>getProjectResponse_finish\<close> the rest of it; other
  requests may run in between.
\<close>

datatype pending = Hit project | Awaiting "exn + project option"

definition getProjectResponse_start ::
  "env \<Rightarrow> string option \<Rightarrow> config \<Rightarrow> state \<Rightarrow> pending \<times> state" where
  "getProjectResponse_start env k cfg st =
     (case cache_get (now env) k st of
        Some p \<Rightarrow> (Hit p, st)
      | None \<Rightarrow> (Awaiting (getProjectInfo env k cfg), emit (GetProject k) st))"

definition getProjectResponse_finish ::
  "env \<Rightarrow> string option \<Rightarrow> cache_client \<Rightarrow> pending \<Rightarrow> state \<Rightarrow> (exn + project option) \<times> state" where
  "getProjectResponse_finish env k c pd st =
     (case pd of
        Hit p \<Rightarrow> (Inr (Some p), st)
      | Awaiting (Inl e) \<Rightarrow> (Inl e, st)
      | Awaiting (Inr None) \<Rightarrow> (Inr None, st)
      | Awaiting (Inr (Some p)) \<Rightarrow> (Inr (Some p), cache_set c (now env) k p st))"

text \<open>Two lookups of one key that overlap: the second starts while the first awaits the
  issue tracker, then each finishes. The result is both answers and the store.\<close>

definition interleaved_lookups ::
  "env \<Rightarrow> env \<Rightarrow> string option \<Rightarrow> config \<Rightarrow> cache_client \<Rightarrow> state
     \<Rightarrow> (exn + project option) \<times> (exn + project option) \<times> state" where
  "interleaved_lookups envA envB k cfg c st =
     (case getProjectResponse_start envA k cfg st of
        (pa, s1) \<Rightarrow>
          (case getProjectResponse_start envB k cfg s1 of
             (pb, s2) \<Rightarrow>
               (case getProjectResponse_finish envA k c pa s2 of
                  (ra, s3) \<Rightarrow>
                    (case getProjectResponse_finish envB k c pb s3 of
                       (rb, s4) \<Rightarrow> (ra, rb, s4)))))"

subsection \<open>The dashboard handler\<close>

text \<open>Lines 154 to 161: the components of both annotations.\<close>

definition components_of :: "config \<Rightarrow> entity \<Rightarrow> string list" where
  "components_of cfg e =
     (case annotation e (componentsAnnotation cfg) of
        None \<Rightarrow> []
      | Some s \<Rightarrow> split_comma s)
     @ (case annotation e (componentRoadieAnnotation cfg) of
          None \<Rightarrow> []
        | Some s \<Rightarrow> split_comma s)"

text \<open>Lines 130 to 176. The test \<^verbatim>\<open>if (customFilterAnnotations)\<close> holds for every array,
  and so does \<^verbatim>\<open>if (components)\<close>: an array is truthy, also the empty one.\<close>

definition dashboard_issues ::
  "config \<Rightarrow> env \<Rightarrow> request \<Rightarrow> entity \<Rightarrow> string \<Rightarrow> project option \<Rightarrow> state \<Rightarrow> outcome \<times> state" where
  "dashboard_issues cfg env req e pk projectResponse st =
     (case getIdentity env req of
        Inl ex \<Rightarrow> (Propagated ex, st)
      | Inr userIdentity \<Rightarrow>
          (let st1 = (case userIdentity of
                        None \<Rightarrow> emit (Log Warn ''Could not find user identity'') st
                      | Some u \<Rightarrow> st);
               customFilterAnnotations = map_option split_comma (annotation e (filtersAnnotation cfg));
               defaults = getDefaultFilters env cfg (userEntityRef_of userIdentity)
           in case (case customFilterAnnotations of
                      None \<Rightarrow> (Inr defaults, st1)
                    | Some ns \<Rightarrow>
                        (case getFiltersFromAnnotations env ns cfg of
                           Inl ex \<Rightarrow> (Inl ex, emit (ResolveFilters ns) st1)
                         | Inr fs \<Rightarrow> (Inr (defaults @ fs), emit (ResolveFilters ns) st1))) of
                (Inl ex, st2) \<Rightarrow> (Propagated ex, st2)
              | (Inr filters, st2) \<Rightarrow>
                  (let st3 = emit (IssuesByFilters pk filters) st2 in
                   case getIssuesFromFilters env pk filters cfg of
                     Inl ex \<Rightarrow> (Propagated ex, st3)
                   | Inr issues \<Rightarrow>
                       (let components = components_of cfg e;
                            st4 = emit (IssuesByComponents pk components) st3
                        in case getIssuesFromComponents env pk components cfg of
                             Inl ex \<Rightarrow> (Propagated ex, st4)
                           | Inr componentIssues \<Rightarrow>
                               (Responded 200 (JiraResponse projectResponse (issues @ componentIssues)),
                                st4)))))"

text \<open>Lines 118 to 128: the lookup inside \<^verbatim>\<open>try\<close>.\<close>

definition dashboard_project ::
  "config \<Rightarrow> env \<Rightarrow> request \<Rightarrow> entity \<Rightarrow> string \<Rightarrow> state \<Rightarrow> outcome \<times> state" where
  "dashboard_project cfg env req e pk st =
     (case getProjectResponse env (Some pk) cfg cache_client st of
        (Inl ex, st1) \<Rightarrow>
          (Responded 404 (ErrorObj (''No Jira project found with key '' @ pk)),
           emit (Log Err (''Could not find Jira project '' @ pk)) st1)
      | (Inr projectResponse, st1) \<Rightarrow> dashboard_issues cfg env req e pk projectResponse st1)"

text \<open>Lines 111 to 116.\<close>

definition no_project_key :: "string \<Rightarrow> state \<Rightarrow> outcome \<times> state" where
  "no_project_key entityRef st =
     (let error = ''No jira.com/project-key annotation found for '' @ entityRef
      in (Responded 404 (Str error), emit (Log Info error) st))"

text \<open>Lines 89 to 116. \<^verbatim>\<open>!projectKey\<close> holds for undefined and for the empty string.\<close>

definition dashboard :: "config \<Rightarrow> env \<Rightarrow> request \<Rightarrow> state \<Rightarrow> outcome \<times> state" where
  "dashboard cfg env req st =
     (let entityRef = stringifyEntityRef env (kind req) (namespace req) (name req) in
      case getToken env of
        Inl ex \<Rightarrow> (Propagated ex, st)
      | Inr token \<Rightarrow>
          (case getEntityByRef env entityRef token of
             Inl ex \<Rightarrow> (Propagated ex, st)
           | Inr None \<Rightarrow>
               (Responded 500 (ErrorObj (''No entity found for '' @ entityRef)),
                emit (Log Info (''No entity found for '' @ entityRef)) st)
           | Inr (Some e) \<Rightarrow>
               (case annotation e (projectKeyAnnotation cfg) of
                  None \<Rightarrow> no_project_key entityRef st
                | Some pk \<Rightarrow>
                    if pk = [] then no_project_key entityRef st
                    else dashboard_project cfg env req e pk st)))"

subsection \<open>The avatar handler\<close>

text \<open>Lines 213 to 228.\<close>

definition avatar_stream :: "config \<Rightarrow> env \<Rightarrow> project \<Rightarrow> state \<Rightarrow> outcome \<times> state" where
  "avatar_stream cfg env p st =
     (let url = avatarUrls p ''48x48'';
          st1 = emit (FetchAvatar url) st
      in case getProjectAvatar env url cfg of
           Inl ex \<Rightarrow> (Propagated ex, st1)
         | Inr avatar \<Rightarrow>
             (let val = (case contentType avatar of None \<Rightarrow> [] | Some v \<Rightarrow> v)
              in case body avatar of
                   Inl (Error m) \<Rightarrow> (PipeFailed val 400, emit (Log Err m) st1)
                 | Inr bytes \<Rightarrow> (Piped val bytes, st1)))"

text \<open>Lines 199 to 211: the lookup, awaited outside any \<^verbatim>\<open>try\<close>, and the test
  \<^verbatim>\<open>!projectResponse\<close>. The key is whatever the annotation lookup gave, also undefined.\<close>

definition avatar_project :: "config \<Rightarrow> env \<Rightarrow> string option \<Rightarrow> state \<Rightarrow> outcome \<times> state" where
  "avatar_project cfg env k st =
     (case getProjectResponse env k cfg cache_client st of
        (Inl ex, st1) \<Rightarrow> (Propagated ex, st1)
      | (Inr None, st1) \<Rightarrow>
          (Responded 400 (ErrorObj (''No Jira project found for project key '' @ show_key k)),
           emit (Log Err ''Could not find project in Jira'') st1)
      | (Inr (Some p), st1) \<Rightarrow> avatar_stream cfg env p st1)"

text \<open>Lines 182 to 197.\<close>

definition avatar :: "config \<Rightarrow> env \<Rightarrow> request \<Rightarrow> state \<Rightarrow> outcome \<times> state" where
  "avatar cfg env req st =
     (let entityRef = stringifyEntityRef env (kind req) (namespace req) (name req) in
      case getToken env of
        Inl ex \<Rightarrow> (Propagated ex, st)
      | Inr token \<Rightarrow>
          (case getEntityByRef env entityRef token of
             Inl ex \<Rightarrow> (Propagated ex, st)
           | Inr None \<Rightarrow>
               (Responded 500 (ErrorObj (''No entity found for '' @ entityRef)),
                emit (Log Info (''No entity found for '' @ entityRef)) st)
           | Inr (Some e) \<Rightarrow>
               avatar_project cfg env (annotation e (projectKeyAnnotation cfg)) st))"

subsection \<open>Observing one request\<close>

text \<open>The filters that lines 138 to 150 push after the default ones: none without the
  filter annotation, otherwise what the names in it resolve to.\<close>

definition annotation_filters :: "config \<Rightarrow> env \<Rightarrow> entity \<Rightarrow> exn + jira_filter list" where
  "annotation_filters cfg env e =
     (case annotation e (filtersAnnotation cfg) of
        None \<Rightarrow> Inr []
      | Some s \<Rightarrow> getFiltersFromAnnotations env (split_comma s) cfg)"


text \<open>The events a handler added to the trace between two stores.\<close>

definition new_events :: "state \<Rightarrow> state \<Rightarrow> event list" where
  "new_events st st' = drop (length (trace st)) (trace st')"

text \<open>The two routes that look a project up (lines 87 and 180), and the router sending
  a request to its handler.\<close>

datatype route = Dashboard | Avatar

fun handle :: "route \<Rightarrow> config \<Rightarrow> env \<Rightarrow> request \<Rightarrow> state \<Rightarrow> outcome \<times> state" where
  "handle Dashboard cfg env req st = dashboard cfg env req st"
| "handle Avatar cfg env req st = avatar cfg env req st"

text \<open>The key a request hands to the project lookup, if it gets that far: the dashboard
  handler returns before the lookup when the key is undefined or empty (lines 109 to
  116), the avatar handler hands on whatever the annotation lookup gave (line 197).\<close>

definition lookup_key_of ::
  "route \<Rightarrow> config \<Rightarrow> env \<Rightarrow> request \<Rightarrow> string option option" where
  "lookup_key_of r cfg env req =
     (case getToken env of
        Inl ex \<Rightarrow> None
      | Inr token \<Rightarrow>
          (case getEntityByRef env
                  (stringifyEntityRef env (kind req) (namespace req) (name req)) token of
             Inl ex \<Rightarrow> None
           | Inr None \<Rightarrow> None
           | Inr (Some e) \<Rightarrow>
               (case r of
                  Avatar \<Rightarrow> Some (annotation e (projectKeyAnnotation cfg))
                | Dashboard \<Rightarrow>
                    (case annotation e (projectKeyAnnotation cfg) of
                       None \<Rightarrow> None
                     | Some pk \<Rightarrow> if pk = [] then None else Some (Some pk)))))"

subsection \<open>Example inputs\<close>

definition cfg0 :: config where
  "cfg0 = \<lparr>projectKeyAnnotation = ''jira.com/project-key'',
           componentsAnnotation = ''jira.com/components'',
           componentRoadieAnnotation = ''jira/component'',
           filtersAnnotation = ''jira.com/filter-ids''\<rparr>"

definition req0 :: request where
  "req0 = \<lparr>kind = ''component'', namespace = ''default'', name = ''web''\<rparr>"

definition proj0 :: project where
  "proj0 = \<lparr>projectKey = ''PRJ'', projectName = ''Project'',
            avatarUrls = [''48x48'' \<mapsto> ''https://jira/avatar.png'']\<rparr>"

definition ent_plain :: entity where
  "ent_plain = \<lparr>annotations = Some [''jira.com/project-key'' \<mapsto> ''PRJ'']\<rparr>"

definition ent_nokey :: entity where
  "ent_nokey = \<lparr>annotations = Some [''jira.com/components'' \<mapsto> ''A'']\<rparr>"

definition ent_full :: entity where
  "ent_full = \<lparr>annotations = Some [''jira.com/project-key'' \<mapsto> ''PRJ'',
       ''jira.com/components'' \<mapsto> ''A'', ''jira/component'' \<mapsto> ''B,C'',
       ''jira.com/filter-ids'' \<mapsto> ''f1'']\<rparr>"

definition flt :: "string \<Rightarrow> jira_filter" where
  "flt v = \<lparr>field = ''status'', operator = ''='', fvalue = v\<rparr>"

text \<open>An environment in which every collaborator answers and nobody is signed in.\<close>

definition env0 :: "nat \<Rightarrow> entity option \<Rightarrow> env" where
  "env0 t eo = \<lparr>now = t,
     stringifyEntityRef = (\<lambda>k n m. k @ '':'' @ n @ ''/'' @ m),
     getToken = Inr ''token'',
     getEntityByRef = (\<lambda>r t. Inr eo),
     getIdentity = (\<lambda>r. Inr None),
     getDefaultFilters =
       (\<lambda>c u. (case u of None \<Rightarrow> [flt ''open''] | Some r \<Rightarrow> [flt ''open'', flt r])),
     getFiltersFromAnnotations = (\<lambda>ns c. Inr (map flt ns)),
     getIssuesFromFilters = (\<lambda>k fs c. Inr [Issue ''PRJ-1'', Issue ''PRJ-2'']),
     getIssuesFromComponents = (\<lambda>k cs c. Inr [Issue ''PRJ-2'']),
     getProjectInfo = (\<lambda>k c. Inr (Some proj0)),
     getProjectAvatar =
       (\<lambda>u c. Inr \<lparr>contentType = Some ''image/png'', body = Inr ''bytes''\<rparr>)\<rparr>"

text \<open>The same with an issue tracker that rejects every project lookup.\<close>

definition env_down :: "nat \<Rightarrow> entity option \<Rightarrow> env" where
  "env_down t eo = (env0 t eo)\<lparr>getProjectInfo := (\<lambda>k c. Inl (Error ''Not Found''))\<rparr>"

definition st0 :: state where
  "st0 = \<lparr>cache = Map.empty, trace = []\<rparr>"

section \<open>Properties\<close>

lemmas example_defs = cfg0_def req0_def proj0_def ent_plain_def ent_nokey_def ent_full_def
  flt_def env0_def env_down_def st0_def

lemmas handler_defs = dashboard_def dashboard_project_def dashboard_issues_def no_project_key_def
  getProjectResponse_def cache_get_def cache_set_def emit_def annotation_def components_of_def
  userEntityRef_of_def cache_client_def DEFAULT_TTL_def new_events_def avatar_def
  avatar_project_def avatar_stream_def show_key_def Let_def

subsection \<open>Stages of the dashboard handler\<close>

lemma dashboard_issues_status:
  "fst (dashboard_issues cfg env req e pk pr st) = Responded s b \<Longrightarrow> s = 200"
  unfolding dashboard_issues_def Let_def
  by (simp split: sum.splits option.splits prod.splits)

lemma dashboard_project_status:
  "fst (dashboard_project cfg env req e pk st) = Responded s b \<Longrightarrow> s = 404 \<or> s = 200"
  unfolding dashboard_project_def
  by (auto split: sum.splits prod.splits dest: dashboard_issues_status)

lemma dashboard_500_only:
  "fst (dashboard cfg env req st) = Responded 500 b \<Longrightarrow>
   (\<exists>token. getToken env = Inr token \<and>
     getEntityByRef env (stringifyEntityRef env (kind req) (namespace req) (name req)) token = Inr None)"
  unfolding dashboard_def Let_def no_project_key_def
  by (auto split: sum.splits option.splits if_splits dest: dashboard_project_status)


lemma dashboard_no_entity:
  "getToken env = Inr token \<Longrightarrow>
   getEntityByRef env (stringifyEntityRef env (kind req) (namespace req) (name req)) token = Inr None \<Longrightarrow>
   dashboard cfg env req st =
     (Responded 500 (ErrorObj (''No entity found for ''
          @ stringifyEntityRef env (kind req) (namespace req) (name req))),
      emit (Log Info (''No entity found for ''
          @ stringifyEntityRef env (kind req) (namespace req) (name req))) st)"
  by (simp add: dashboard_def Let_def)

lemma dashboard_no_key:
  "getToken env = Inr token \<Longrightarrow>
   getEntityByRef env (stringifyEntityRef env (kind req) (namespace req) (name req)) token
     = Inr (Some e) \<Longrightarrow>
   annotation e (projectKeyAnnotation cfg) = None
     \<or> annotation e (projectKeyAnnotation cfg) = Some [] \<Longrightarrow>
   dashboard cfg env req st =
     no_project_key (stringifyEntityRef env (kind req) (namespace req) (name req)) st"
  by (auto simp: dashboard_def Let_def)

lemma dashboard_with_key:
  "getToken env = Inr token \<Longrightarrow>
   getEntityByRef env (stringifyEntityRef env (kind req) (namespace req) (name req)) token
     = Inr (Some e) \<Longrightarrow>
   annotation e (projectKeyAnnotation cfg) = Some pk \<Longrightarrow> pk \<noteq> [] \<Longrightarrow>
   dashboard cfg env req st = dashboard_project cfg env req e pk st"
  by (simp add: dashboard_def Let_def)

lemma dashboard_project_throw:
  "fst (getProjectResponse env (Some pk) cfg cache_client st) = Inl ex \<Longrightarrow>
   fst (dashboard_project cfg env req e pk st)
     = Responded 404 (ErrorObj (''No Jira project found with key '' @ pk))"
  unfolding dashboard_project_def
  by (cases "getProjectResponse env (Some pk) cfg cache_client st") simp

subsection \<open>Rejections in the dashboard handler\<close>

lemma dashboard_rejected_token:
  "getToken env = Inl ex \<Longrightarrow> dashboard cfg env req st = (Propagated ex, st)"
  by (simp add: dashboard_def Let_def)

lemma dashboard_rejected_catalog:
  "getToken env = Inr token \<Longrightarrow>
   getEntityByRef env (stringifyEntityRef env (kind req) (namespace req) (name req)) token = Inl ex \<Longrightarrow>
   dashboard cfg env req st = (Propagated ex, st)"
  by (simp add: dashboard_def Let_def)

lemma dashboard_issues_rejected_identity:
  "getIdentity env req = Inl ex \<Longrightarrow>
   dashboard_issues cfg env req e pk pr st = (Propagated ex, st)"
  by (simp add: dashboard_issues_def)

lemma dashboard_issues_rejected_filters:
  "getIdentity env req = Inr u \<Longrightarrow> annotation_filters cfg env e = Inl ex \<Longrightarrow>
   fst (dashboard_issues cfg env req e pk pr st) = Propagated ex"
  unfolding dashboard_issues_def annotation_filters_def Let_def
  by (cases "annotation e (filtersAnnotation cfg)") simp_all

lemma dashboard_issues_rejected_filter_query:
  "getIdentity env req = Inr u \<Longrightarrow> annotation_filters cfg env e = Inr afs \<Longrightarrow>
   getIssuesFromFilters env pk (getDefaultFilters env cfg (userEntityRef_of u) @ afs) cfg = Inl ex \<Longrightarrow>
   fst (dashboard_issues cfg env req e pk pr st) = Propagated ex"
  unfolding dashboard_issues_def annotation_filters_def Let_def
  by (cases "annotation e (filtersAnnotation cfg)") simp_all

lemma dashboard_issues_rejected_component_query:
  "getIdentity env req = Inr u \<Longrightarrow> annotation_filters cfg env e = Inr afs \<Longrightarrow>
   getIssuesFromFilters env pk (getDefaultFilters env cfg (userEntityRef_of u) @ afs) cfg = Inr fi \<Longrightarrow>
   getIssuesFromComponents env pk (components_of cfg e) cfg = Inl ex \<Longrightarrow>
   fst (dashboard_issues cfg env req e pk pr st) = Propagated ex"
  unfolding dashboard_issues_def annotation_filters_def Let_def
  by (cases "annotation e (filtersAnnotation cfg)") simp_all

lemma dashboard_project_resolved:
  "fst (getProjectResponse env (Some pk) cfg cache_client st) = Inr pr \<Longrightarrow>
   dashboard_project cfg env req e pk st
     = dashboard_issues cfg env req e pk pr (snd (getProjectResponse env (Some pk) cfg cache_client st))"
  unfolding dashboard_project_def
  by (cases "getProjectResponse env (Some pk) cfg cache_client st") simp

lemma dashboard_statuses:
  "fst (dashboard cfg env req st) = Responded s b \<Longrightarrow> s = 500 \<or> s = 404 \<or> s = 200"
  unfolding dashboard_def Let_def no_project_key_def
  by (auto split: sum.splits option.splits if_splits dest: dashboard_project_status)

lemma dashboard_issues_outcome:
  "(\<exists>b. fst (dashboard_issues cfg env req e pk pr st) = Responded 200 b)
   \<or> (\<exists>ex. fst (dashboard_issues cfg env req e pk pr st) = Propagated ex)"
  unfolding dashboard_issues_def Let_def
  by (simp split: sum.splits option.splits prod.splits)

lemma dashboard_outcome:
  "(\<exists>s b. fst (dashboard cfg env req st) = Responded s b)
   \<or> (\<exists>ex. fst (dashboard cfg env req st) = Propagated ex)"
proof -
  have p: "(\<exists>s b. fst (dashboard_project cfg env req e pk st) = Responded s b)
      \<or> (\<exists>ex. fst (dashboard_project cfg env req e pk st) = Propagated ex)" for e pk
    unfolding dashboard_project_def
    using dashboard_issues_outcome
    by (cases "getProjectResponse env (Some pk) cfg cache_client st")
       (auto split: sum.splits, metis)
  show ?thesis
    unfolding dashboard_def Let_def no_project_key_def
    using p by (auto split: sum.splits option.splits)
qed


lemma dashboard_issues_propagatedD:
  assumes "fst (dashboard_issues cfg env req e pk pr st) = Propagated ex"
  shows "getIdentity env req = Inl ex
    \<or> (\<exists>u. getIdentity env req = Inr u
        \<and> (annotation_filters cfg env e = Inl ex
           \<or> (\<exists>afs. annotation_filters cfg env e = Inr afs
               \<and> (getIssuesFromFilters env pk
                     (getDefaultFilters env cfg (userEntityRef_of u) @ afs) cfg = Inl ex
                  \<or> (\<exists>fi. getIssuesFromFilters env pk
                        (getDefaultFilters env cfg (userEntityRef_of u) @ afs) cfg = Inr fi
                      \<and> getIssuesFromComponents env pk (components_of cfg e) cfg = Inl ex)))))"
  using assms unfolding dashboard_issues_def annotation_filters_def Let_def
  by (cases "annotation e (filtersAnnotation cfg)")
     (auto split: sum.splits option.splits)

lemma dashboard_propagatedD:
  assumes "fst (dashboard cfg env req st) = Propagated ex"
  shows "getToken env = Inl ex
    \<or> (\<exists>token. getToken env = Inr token
        \<and> (getEntityByRef env (stringifyEntityRef env (kind req) (namespace req) (name req)) token
              = Inl ex
           \<or> (\<exists>e pk pr. getEntityByRef env
                   (stringifyEntityRef env (kind req) (namespace req) (name req)) token
                 = Inr (Some e)
               \<and> annotation e (projectKeyAnnotation cfg) = Some pk \<and> pk \<noteq> []
               \<and> fst (getProjectResponse env (Some pk) cfg cache_client st) = Inr pr
               \<and> fst (dashboard_issues cfg env req e pk pr
                        (snd (getProjectResponse env (Some pk) cfg cache_client st)))
                   = Propagated ex)))"
proof -
  have p: "\<exists>pr. fst (getProjectResponse env (Some pk) cfg cache_client st) = Inr pr
               \<and> fst (dashboard_issues cfg env req e pk pr
                        (snd (getProjectResponse env (Some pk) cfg cache_client st)))
                   = Propagated ex"
    if "fst (dashboard_project cfg env req e pk st) = Propagated ex" for e pk
    using that unfolding dashboard_project_def
    by (cases "getProjectResponse env (Some pk) cfg cache_client st")
       (auto split: sum.splits)
  show ?thesis
    using assms p unfolding dashboard_def Let_def no_project_key_def
    by (auto split: sum.splits option.splits if_splits)
qed

subsection \<open>The example inputs\<close>

lemma env0_basics:
  "getToken (env0 t eo) = Inr ''token''"
  "stringifyEntityRef (env0 t eo) (kind req0) (namespace req0) (name req0) = ''component:default/web''"
  "getEntityByRef (env0 t eo) r tok = Inr eo"
  "now (env0 t eo) = t"
  by (simp_all add: env0_def req0_def)

lemma env_down_basics:
  "getToken (env_down t eo) = Inr ''token''"
  "stringifyEntityRef (env_down t eo) (kind req0) (namespace req0) (name req0) = ''component:default/web''"
  "getEntityByRef (env_down t eo) r tok = Inr eo"
  "now (env_down t eo) = t"
  "getProjectInfo (env_down t eo) k c = Inl (Error ''Not Found'')"
  by (simp_all add: env_down_def env0_def req0_def)

lemma example_annotations:
  "annotation ent_nokey (projectKeyAnnotation cfg0) = None"
  "annotation ent_plain (projectKeyAnnotation cfg0) = Some ''PRJ''"
  "annotation ent_full (projectKeyAnnotation cfg0) = Some ''PRJ''"
  by (simp_all add: annotation_def ent_nokey_def ent_plain_def ent_full_def cfg0_def)


subsection \<open>Events of a request\<close>

lemma new_events_emit [simp]:
  "new_events st (emit ev st) = [ev]"
  by (simp add: new_events_def emit_def)

lemma new_events_same [simp]: "new_events st st = []"
  by (simp add: new_events_def)

lemma getProjectResponse_events:
  "new_events st (snd (getProjectResponse env k cfg c st))
     = (if cache_get (now env) k st = None then [GetProject k] else [])"
  by (simp add: getProjectResponse_def cache_set_def emit_def new_events_def
      split: option.splits sum.splits)

lemma getProjectResponse_trace:
  "trace (snd (getProjectResponse env k cfg c st))
     = trace st @ (if cache_get (now env) k st = None then [GetProject k] else [])"
  by (simp add: getProjectResponse_def cache_set_def emit_def
      split: option.splits sum.splits)

lemma dashboard_issues_ok:
  assumes "getIdentity env req = Inr u"
    and "annotation_filters cfg env e = Inr afs"
    and "getIssuesFromFilters env pk (getDefaultFilters env cfg (userEntityRef_of u) @ afs) cfg = Inr fi"
    and "getIssuesFromComponents env pk (components_of cfg e) cfg = Inr ci"
  shows "dashboard_issues cfg env req e pk pr st =
     (Responded 200 (JiraResponse pr (fi @ ci)),
      st\<lparr>trace := trace st
         @ (case u of None \<Rightarrow> [Log Warn ''Could not find user identity''] | Some r \<Rightarrow> [])
         @ (case annotation e (filtersAnnotation cfg) of
              None \<Rightarrow> [] | Some s \<Rightarrow> [ResolveFilters (split_comma s)])
         @ [IssuesByFilters pk (getDefaultFilters env cfg (userEntityRef_of u) @ afs),
            IssuesByComponents pk (components_of cfg e)]\<rparr>)"
proof (cases u)
  case None
  with assms show ?thesis
    unfolding dashboard_issues_def annotation_filters_def Let_def
    by (cases "annotation e (filtersAnnotation cfg)") (simp_all add: emit_def)
next
  case (Some r)
  with assms show ?thesis
    unfolding dashboard_issues_def annotation_filters_def Let_def
    by (cases "annotation e (filtersAnnotation cfg)") (simp_all add: emit_def)
qed

lemma dashboard_issues_200D:
  assumes "fst (dashboard_issues cfg env req e pk pr st) = Responded s b"
  shows "\<exists>u afs fi ci. getIdentity env req = Inr u \<and> annotation_filters cfg env e = Inr afs
      \<and> getIssuesFromFilters env pk (getDefaultFilters env cfg (userEntityRef_of u) @ afs) cfg = Inr fi
      \<and> getIssuesFromComponents env pk (components_of cfg e) cfg = Inr ci"
  using assms unfolding dashboard_issues_def annotation_filters_def Let_def
  by (simp split: sum.splits option.splits prod.splits)


lemma new_events_append: "trace st' = trace st @ evs \<Longrightarrow> new_events st st' = evs"
  by (simp add: new_events_def)

lemma dashboard_issues_events:
  "\<exists>evs. trace (snd (dashboard_issues cfg env req e pk pr st)) = trace st @ evs
     \<and> (\<forall>k cs. IssuesByComponents k cs \<in> set evs \<longrightarrow> k = pk \<and> cs = components_of cfg e)
     \<and> (\<forall>k fs. IssuesByFilters k fs \<in> set evs \<longrightarrow> k = pk \<and>
           (\<exists>u afs. getIdentity env req = Inr u \<and> annotation_filters cfg env e = Inr afs
              \<and> fs = getDefaultFilters env cfg (userEntityRef_of u) @ afs))
     \<and> (\<forall>k. GetProject k \<notin> set evs)"
  unfolding dashboard_issues_def annotation_filters_def Let_def
  by (auto simp: emit_def split: sum.splits option.splits)


lemma dashboard_project_events:
  "\<exists>evs. new_events st (snd (dashboard_project cfg env req e pk st))
       = (if cache_get (now env) (Some pk) st = None then [GetProject (Some pk)] else []) @ evs
     \<and> (\<forall>k cs. IssuesByComponents k cs \<in> set evs \<longrightarrow> k = pk \<and> cs = components_of cfg e)
     \<and> (\<forall>k fs. IssuesByFilters k fs \<in> set evs \<longrightarrow> k = pk \<and>
           (\<exists>u afs. getIdentity env req = Inr u \<and> annotation_filters cfg env e = Inr afs
              \<and> fs = getDefaultFilters env cfg (userEntityRef_of u) @ afs))
     \<and> (\<forall>k. GetProject k \<notin> set evs)"
proof -
  obtain r st1 where look: "getProjectResponse env (Some pk) cfg cache_client st = (r, st1)"
    by (cases "getProjectResponse env (Some pk) cfg cache_client st")
  let ?g = "if cache_get (now env) (Some pk) st = None then [GetProject (Some pk)] else []"
  have tr1: "trace st1 = trace st @ ?g"
    using getProjectResponse_trace [of env "Some pk" cfg cache_client st] look by simp
  show ?thesis
  proof (cases r)
    case (Inl ex)
    with look tr1 have "new_events st (snd (dashboard_project cfg env req e pk st))
        = ?g @ [Log Err (''Could not find Jira project '' @ pk)]"
      by (simp add: dashboard_project_def emit_def new_events_def)
    then show ?thesis by simp
  next
    case (Inr pr)
    with look have eq: "dashboard_project cfg env req e pk st = dashboard_issues cfg env req e pk pr st1"
      by (simp add: dashboard_project_def)
    from dashboard_issues_events [of cfg env req e pk pr st1]
    obtain evs where evs: "trace (snd (dashboard_issues cfg env req e pk pr st1)) = trace st1 @ evs"
      "\<forall>k cs. IssuesByComponents k cs \<in> set evs \<longrightarrow> k = pk \<and> cs = components_of cfg e"
      "\<forall>k fs. IssuesByFilters k fs \<in> set evs \<longrightarrow> k = pk \<and>
           (\<exists>u afs. getIdentity env req = Inr u \<and> annotation_filters cfg env e = Inr afs
              \<and> fs = getDefaultFilters env cfg (userEntityRef_of u) @ afs)"
      "\<forall>k. GetProject k \<notin> set evs"
      by blast
    from evs(1) tr1 eq have "new_events st (snd (dashboard_project cfg env req e pk st)) = ?g @ evs"
      by (simp add: new_events_def)
    with evs(2-4) show ?thesis by blast
  qed
qed

lemma dashboard_project_200D:
  assumes "fst (dashboard_project cfg env req e pk st) = Responded 200 b"
  shows "\<exists>pr. fst (getProjectResponse env (Some pk) cfg cache_client st) = Inr pr
      \<and> dashboard_project cfg env req e pk st
          = dashboard_issues cfg env req e pk pr (snd (getProjectResponse env (Some pk) cfg cache_client st))"
  using assms unfolding dashboard_project_def
  by (cases "getProjectResponse env (Some pk) cfg cache_client st")
     (auto split: sum.splits)

lemma dashboard_200D:
  assumes "fst (dashboard cfg env req st) = Responded 200 b"
  shows "\<exists>token e pk. getToken env = Inr token
      \<and> getEntityByRef env (stringifyEntityRef env (kind req) (namespace req) (name req)) token
          = Inr (Some e)
      \<and> annotation e (projectKeyAnnotation cfg) = Some pk \<and> pk \<noteq> []
      \<and> dashboard cfg env req st = dashboard_project cfg env req e pk st"
  using assms unfolding dashboard_def Let_def no_project_key_def
  by (auto split: sum.splits option.splits if_splits)

lemma dashboard_project_success:
  assumes "fst (dashboard_project cfg env req e pk st) = Responded 200 b"
  shows "\<exists>pr u afs fi ci.
        fst (getProjectResponse env (Some pk) cfg cache_client st) = Inr pr
      \<and> getIdentity env req = Inr u \<and> annotation_filters cfg env e = Inr afs
      \<and> getIssuesFromFilters env pk (getDefaultFilters env cfg (userEntityRef_of u) @ afs) cfg = Inr fi
      \<and> getIssuesFromComponents env pk (components_of cfg e) cfg = Inr ci
      \<and> b = JiraResponse pr (fi @ ci)
      \<and> IssuesByFilters pk (getDefaultFilters env cfg (userEntityRef_of u) @ afs)
           \<in> set (new_events st (snd (dashboard_project cfg env req e pk st)))
      \<and> IssuesByComponents pk (components_of cfg e)
           \<in> set (new_events st (snd (dashboard_project cfg env req e pk st)))"
proof -
  let ?st1 = "snd (getProjectResponse env (Some pk) cfg cache_client st)"
  from dashboard_project_200D [OF assms] obtain pr where
    pr: "fst (getProjectResponse env (Some pk) cfg cache_client st) = Inr pr"
    and eq: "dashboard_project cfg env req e pk st = dashboard_issues cfg env req e pk pr ?st1"
    by blast
  from assms eq have "fst (dashboard_issues cfg env req e pk pr ?st1) = Responded 200 b" by simp
  from dashboard_issues_200D [OF this] obtain u afs fi ci where
    ok: "getIdentity env req = Inr u" "annotation_filters cfg env e = Inr afs"
      "getIssuesFromFilters env pk (getDefaultFilters env cfg (userEntityRef_of u) @ afs) cfg = Inr fi"
      "getIssuesFromComponents env pk (components_of cfg e) cfg = Inr ci"
    by blast
  note run = dashboard_issues_ok [OF ok, of pr ?st1]
  have tr1: "trace ?st1 = trace st @
      (if cache_get (now env) (Some pk) st = None then [GetProject (Some pk)] else [])"
    by (rule getProjectResponse_trace)
  from assms eq run have b: "b = JiraResponse pr (fi @ ci)" by simp
  from eq run tr1 have
    "IssuesByFilters pk (getDefaultFilters env cfg (userEntityRef_of u) @ afs)
        \<in> set (new_events st (snd (dashboard_project cfg env req e pk st)))"
    "IssuesByComponents pk (components_of cfg e)
        \<in> set (new_events st (snd (dashboard_project cfg env req e pk st)))"
    by (simp_all add: new_events_def)
  with pr ok b show ?thesis by blast
qed

subsection \<open>Stages of the avatar handler\<close>

lemma avatar_with_entity:
  "getToken env = Inr token \<Longrightarrow>
   getEntityByRef env (stringifyEntityRef env (kind req) (namespace req) (name req)) token
     = Inr (Some e) \<Longrightarrow>
   avatar cfg env req st = avatar_project cfg env (annotation e (projectKeyAnnotation cfg)) st"
  by (simp add: avatar_def Let_def)

lemma avatar_stream_status:
  "fst (avatar_stream cfg env p st) \<noteq> Responded s b"
  unfolding avatar_stream_def Let_def
  by (simp split: sum.splits exn.splits)

lemma avatar_project_cases:
  "(\<forall>ex. fst (getProjectResponse env k cfg cache_client st) = Inl ex \<longrightarrow>
        avatar_project cfg env k st
          = (Propagated ex, snd (getProjectResponse env k cfg cache_client st)))
   \<and> (fst (getProjectResponse env k cfg cache_client st) = Inr None \<longrightarrow>
        avatar_project cfg env k st
          = (Responded 400 (ErrorObj (''No Jira project found for project key '' @ show_key k)),
             emit (Log Err ''Could not find project in Jira'')
               (snd (getProjectResponse env k cfg cache_client st))))
   \<and> (\<forall>p. fst (getProjectResponse env k cfg cache_client st) = Inr (Some p) \<longrightarrow>
        avatar_project cfg env k st
          = avatar_stream cfg env p (snd (getProjectResponse env k cfg cache_client st)))"
  unfolding avatar_project_def
  by (cases "getProjectResponse env k cfg cache_client st") auto

lemma avatar_project_status:
  "fst (avatar_project cfg env k st) = Responded s b \<Longrightarrow> s = 400"
  unfolding avatar_project_def
  by (cases "getProjectResponse env k cfg cache_client st")
     (auto simp: avatar_stream_status split: sum.splits option.splits)

lemma avatar_project_lookup_event:
  assumes "cache_get (now env) k st = None"
  shows "GetProject k \<in> set (new_events st (snd (avatar_project cfg env k st)))"
proof -
  obtain r st1 where look: "getProjectResponse env k cfg cache_client st = (r, st1)"
    by (cases "getProjectResponse env k cfg cache_client st")
  with getProjectResponse_trace [of env k cfg cache_client st] assms
  have tr1: "trace st1 = trace st @ [GetProject k]" by simp
  show ?thesis
  proof (cases r)
    case (Inl ex)
    with look tr1 show ?thesis by (simp add: avatar_project_def new_events_def)
  next
    case (Inr po)
    show ?thesis
    proof (cases po)
      case None
      with Inr look tr1 show ?thesis by (simp add: avatar_project_def new_events_def emit_def)
    next
      case (Some p)
      with Inr look tr1 show ?thesis
        by (simp add: avatar_project_def avatar_stream_def Let_def new_events_def emit_def
            split: sum.splits exn.splits)
    qed
  qed
qed

subsection \<open>The cache across requests\<close>

lemma getProjectResponse_split:
  "getProjectResponse env k cfg c st =
     (case getProjectResponse_start env k cfg st of
        (pd, st1) \<Rightarrow> getProjectResponse_finish env k c pd st1)"
  by (simp add: getProjectResponse_def getProjectResponse_start_def getProjectResponse_finish_def
      split: option.splits sum.splits)

lemma project_calls_append:
  "project_calls k (xs @ ys) = project_calls k xs + project_calls k ys"
  by (simp add: project_calls_def)

lemma getProjectResponse_calls:
  "project_calls k (trace (snd (getProjectResponse env k cfg c st)))
     = project_calls k (trace st) + (if cache_get (now env) k st = None then 1 else 0)"
  by (simp add: getProjectResponse_trace project_calls_def)

lemma getProjectResponse_hit:
  "cache_get (now env) k st = Some p \<Longrightarrow> getProjectResponse env k cfg c st = (Inr (Some p), st)"
  by (simp add: getProjectResponse_def)

lemma getProjectResponse_miss:
  assumes "cache_get (now env) k st = None"
    and "fst (getProjectResponse env k cfg c st) = Inr (Some p)"
  shows "cache (snd (getProjectResponse env k cfg c st)) = (cache st)(k \<mapsto> (p, now env + defaultTtl c))"
  using assms
  by (simp add: getProjectResponse_def cache_set_def emit_def split: sum.splits option.splits)

lemma getProjectResponse_nothing:
  assumes "\<forall>p. fst (getProjectResponse env k cfg c st) \<noteq> Inr (Some p)"
  shows "cache (snd (getProjectResponse env k cfg c st)) = cache st"
  using assms
  by (simp add: getProjectResponse_def cache_set_def emit_def split: sum.splits option.splits)

lemma cache_get_stored:
  "cache st k = Some (p, t0) \<Longrightarrow> cache_get t k st = (if t > t0 then None else Some p)"
  by (simp add: cache_get_def)

lemma cache_get_later:
  "cache_get t k st = None \<Longrightarrow> t \<le> t' \<Longrightarrow> cache st' = cache st \<Longrightarrow> cache_get t' k st' = None"
  by (auto simp: cache_get_def split: option.splits if_splits)

lemma dashboard_issues_cache:
  "cache (snd (dashboard_issues cfg env req e pk pr st)) = cache st"
  unfolding dashboard_issues_def Let_def
  by (simp add: emit_def split: sum.splits option.splits)

lemma dashboard_issues_calls:
  "project_calls k (trace (snd (dashboard_issues cfg env req e pk pr st))) = project_calls k (trace st)"
proof -
  from dashboard_issues_events [of cfg env req e pk pr st] obtain evs where
    "trace (snd (dashboard_issues cfg env req e pk pr st)) = trace st @ evs"
    "\<forall>k. GetProject k \<notin> set evs"
    by blast
  then show ?thesis
    by (auto simp: project_calls_def filter_empty_conv)
qed

lemma dashboard_project_store:
  "cache (snd (dashboard_project cfg env req e pk st))
     = cache (snd (getProjectResponse env (Some pk) cfg cache_client st))
   \<and> project_calls k (trace (snd (dashboard_project cfg env req e pk st)))
     = project_calls k (trace (snd (getProjectResponse env (Some pk) cfg cache_client st)))"
  unfolding dashboard_project_def
  by (cases "getProjectResponse env (Some pk) cfg cache_client st")
     (auto simp: dashboard_issues_cache dashboard_issues_calls emit_def project_calls_append
        split: sum.splits, simp add: project_calls_def)

lemma avatar_stream_cache:
  "cache (snd (avatar_stream cfg env p st)) = cache st"
  unfolding avatar_stream_def Let_def
  by (simp add: emit_def split: sum.splits exn.splits)

lemma avatar_stream_calls:
  "project_calls k (trace (snd (avatar_stream cfg env p st))) = project_calls k (trace st)"
  unfolding avatar_stream_def Let_def
  by (simp add: emit_def project_calls_def split: sum.splits exn.splits)

lemma avatar_project_store:
  "cache (snd (avatar_project cfg env k st))
     = cache (snd (getProjectResponse env k cfg cache_client st))
   \<and> project_calls k' (trace (snd (avatar_project cfg env k st)))
     = project_calls k' (trace (snd (getProjectResponse env k cfg cache_client st)))"
  unfolding avatar_project_def
  by (cases "getProjectResponse env k cfg cache_client st")
     (auto simp: avatar_stream_cache avatar_stream_calls emit_def project_calls_append
        split: sum.splits option.splits, simp add: project_calls_def)

lemma lookup_key_of_dashboardD:
  assumes "lookup_key_of Dashboard cfg env req = Some k"
  shows "\<exists>e pk. k = Some pk \<and> dashboard cfg env req st = dashboard_project cfg env req e pk st"
  using assms unfolding lookup_key_of_def dashboard_def Let_def
  by (auto split: sum.splits option.splits if_splits)

lemma lookup_key_of_avatarD:
  assumes "lookup_key_of Avatar cfg env req = Some k"
  shows "avatar cfg env req st = avatar_project cfg env k st"
  using assms unfolding lookup_key_of_def avatar_def Let_def
  by (auto split: sum.splits option.splits)

lemma handle_lookup_store:
  assumes "lookup_key_of r cfg env req = Some k"
  shows "cache (snd (handle r cfg env req st))
     = cache (snd (getProjectResponse env k cfg cache_client st))"
    and "project_calls k' (trace (snd (handle r cfg env req st)))
     = project_calls k' (trace (snd (getProjectResponse env k cfg cache_client st)))"
proof -
  have "cache (snd (handle r cfg env req st))
     = cache (snd (getProjectResponse env k cfg cache_client st))
    \<and> project_calls k' (trace (snd (handle r cfg env req st)))
     = project_calls k' (trace (snd (getProjectResponse env k cfg cache_client st)))"
  proof (cases r)
    case Dashboard
    with assms lookup_key_of_dashboardD [of cfg env req k st] obtain e pk where
      "k = Some pk" "dashboard cfg env req st = dashboard_project cfg env req e pk st"
      by blast
    with Dashboard dashboard_project_store [of cfg env req e pk st k'] show ?thesis by simp
  next
    case Avatar
    with assms have "avatar cfg env req st = avatar_project cfg env k st"
      by (simp add: lookup_key_of_avatarD)
    with Avatar avatar_project_store [of cfg env k st k'] show ?thesis by simp
  qed
  then show "cache (snd (handle r cfg env req st))
     = cache (snd (getProjectResponse env k cfg cache_client st))"
    and "project_calls k' (trace (snd (handle r cfg env req st)))
     = project_calls k' (trace (snd (getProjectResponse env k cfg cache_client st)))"
    by simp_all
qed

text \<open>A whole request on the example entity that carries every annotation.\<close>

lemma env0_full_run:
  "dashboard cfg0 (env0 t (Some ent_full)) req0 st0 =
     (Responded 200 (JiraResponse (Some proj0) [Issue ''PRJ-1'', Issue ''PRJ-2'', Issue ''PRJ-2'']),
      \<lparr>cache = [Some ''PRJ'' \<mapsto> (proj0, t + 60000)],
       trace = [GetProject (Some ''PRJ''), Log Warn ''Could not find user identity'',
          ResolveFilters [''f1''],
          IssuesByFilters ''PRJ'' [flt ''open'', flt ''f1''],
          IssuesByComponents ''PRJ'' [''A'', ''B'', ''C'']]\<rparr>)"
  by (simp add: handler_defs cfg0_def req0_def ent_full_def env0_def st0_def)

subsection \<open>Not-found responses of the dashboard endpoint\<close>

text \<open>
  Claim C1 says that a missing entity, a missing project-key annotation and a missing
  project all answer 404 with a JSON error body, and that 500 is left to unhandled errors.
  The handler answers a missing entity itself, with status 500:
\<close>

theorem dashboard_missing_entity_500:
  "getEntityByRef (env0 0 None) ''component:default/web'' ''token'' = Inr None \<and>
   fst (dashboard cfg0 (env0 0 None) req0 st0)
     = Responded 500 (ErrorObj ''No entity found for component:default/web'')"
  by (simp add: handler_defs example_defs)

text \<open>
  Claim C1, as amended. The handler answers 500 exactly when the catalog returns no
  entity, with the body \<open>{error}\<close>; it answers 404 with a JSON string when the project-key
  annotation is undefined or empty, and 404 with the body \<open>{error}\<close> when the project lookup
  rejects. A rejection of the token manager or of the catalog, and, once the project
  lookup has answered, a rejection of identity resolution, of the filter resolution, of the
  filter query or of the component query, is not answered by the handler: it leaves the
  handler as it is, for the error middleware. The handler's own statuses are 500, 404 and
  200, every request ends in an answer or in such a rejection, and a rejection that leaves
  the handler is one of those collaborators' rejections.
\<close>

theorem dashboard_not_found_statuses:
  fixes cfg env req st
  defines "entityRef \<equiv> stringifyEntityRef env (kind req) (namespace req) (name req)"
  shows "(\<forall>b. fst (dashboard cfg env req st) = Responded 500 b \<longrightarrow>
            (\<exists>token. getToken env = Inr token \<and> getEntityByRef env entityRef token = Inr None))
       \<and> (\<forall>token. getToken env = Inr token \<longrightarrow>
            (getEntityByRef env entityRef token = Inr None \<longrightarrow>
               fst (dashboard cfg env req st)
                 = Responded 500 (ErrorObj (''No entity found for '' @ entityRef)))
          \<and> (\<forall>e. getEntityByRef env entityRef token = Inr (Some e) \<longrightarrow>
               (annotation e (projectKeyAnnotation cfg) = None
                  \<or> annotation e (projectKeyAnnotation cfg) = Some [] \<longrightarrow>
                fst (dashboard cfg env req st)
                  = Responded 404 (Str (''No jira.com/project-key annotation found for '' @ entityRef)))
             \<and> (\<forall>pk ex. annotation e (projectKeyAnnotation cfg) = Some pk \<longrightarrow> pk \<noteq> [] \<longrightarrow>
                   fst (getProjectResponse env (Some pk) cfg cache_client st) = Inl ex \<longrightarrow>
                   fst (dashboard cfg env req st)
                     = Responded 404 (ErrorObj (''No Jira project found with key '' @ pk)))
             \<and> (\<forall>pk pr. annotation e (projectKeyAnnotation cfg) = Some pk \<longrightarrow> pk \<noteq> [] \<longrightarrow>
                   fst (getProjectResponse env (Some pk) cfg cache_client st) = Inr pr \<longrightarrow>
                   (\<forall>ex. getIdentity env req = Inl ex \<longrightarrow>
                      fst (dashboard cfg env req st) = Propagated ex)
                 \<and> (\<forall>u. getIdentity env req = Inr u \<longrightarrow>
                      (\<forall>ex. annotation_filters cfg env e = Inl ex \<longrightarrow>
                         fst (dashboard cfg env req st) = Propagated ex)
                    \<and> (\<forall>afs. annotation_filters cfg env e = Inr afs \<longrightarrow>
                         (\<forall>ex. getIssuesFromFilters env pk
                                 (getDefaultFilters env cfg (userEntityRef_of u) @ afs) cfg = Inl ex \<longrightarrow>
                            fst (dashboard cfg env req st) = Propagated ex)
                       \<and> (\<forall>fi ex. getIssuesFromFilters env pk
                                 (getDefaultFilters env cfg (userEntityRef_of u) @ afs) cfg = Inr fi \<longrightarrow>
                            getIssuesFromComponents env pk (components_of cfg e) cfg = Inl ex \<longrightarrow>
                            fst (dashboard cfg env req st) = Propagated ex)))))
          \<and> (\<forall>ex. getEntityByRef env entityRef token = Inl ex \<longrightarrow>
               dashboard cfg env req st = (Propagated ex, st)))
       \<and> (\<forall>ex. getToken env = Inl ex \<longrightarrow> dashboard cfg env req st = (Propagated ex, st))
       \<and> (\<forall>s b. fst (dashboard cfg env req st) = Responded s b \<longrightarrow> s = 500 \<or> s = 404 \<or> s = 200)
       \<and> ((\<exists>s b. fst (dashboard cfg env req st) = Responded s b)
            \<or> (\<exists>ex. fst (dashboard cfg env req st) = Propagated ex))
       \<and> (\<forall>ex. fst (dashboard cfg env req st) = Propagated ex \<longrightarrow>
             getToken env = Inl ex
           \<or> (\<exists>token. getEntityByRef env entityRef token = Inl ex)
           \<or> getIdentity env req = Inl ex
           \<or> (\<exists>e. annotation_filters cfg env e = Inl ex)
           \<or> (\<exists>pk fs. getIssuesFromFilters env pk fs cfg = Inl ex)
           \<or> (\<exists>pk cs. getIssuesFromComponents env pk cs cfg = Inl ex))"
proof -
  have only500: "\<forall>b. fst (dashboard cfg env req st) = Responded 500 b \<longrightarrow>
            (\<exists>token. getToken env = Inr token \<and> getEntityByRef env entityRef token = Inr None)"
    unfolding entityRef_def using dashboard_500_only by blast
  have answered: "(getEntityByRef env entityRef token = Inr None \<longrightarrow>
               fst (dashboard cfg env req st)
                 = Responded 500 (ErrorObj (''No entity found for '' @ entityRef)))
          \<and> (\<forall>e. getEntityByRef env entityRef token = Inr (Some e) \<longrightarrow>
               (annotation e (projectKeyAnnotation cfg) = None
                  \<or> annotation e (projectKeyAnnotation cfg) = Some [] \<longrightarrow>
                fst (dashboard cfg env req st)
                  = Responded 404 (Str (''No jira.com/project-key annotation found for '' @ entityRef)))
             \<and> (\<forall>pk ex. annotation e (projectKeyAnnotation cfg) = Some pk \<longrightarrow> pk \<noteq> [] \<longrightarrow>
                   fst (getProjectResponse env (Some pk) cfg cache_client st) = Inl ex \<longrightarrow>
                   fst (dashboard cfg env req st)
                     = Responded 404 (ErrorObj (''No Jira project found with key '' @ pk)))
             \<and> (\<forall>pk pr. annotation e (projectKeyAnnotation cfg) = Some pk \<longrightarrow> pk \<noteq> [] \<longrightarrow>
                   fst (getProjectResponse env (Some pk) cfg cache_client st) = Inr pr \<longrightarrow>
                   (\<forall>ex. getIdentity env req = Inl ex \<longrightarrow>
                      fst (dashboard cfg env req st) = Propagated ex)
                 \<and> (\<forall>u. getIdentity env req = Inr u \<longrightarrow>
                      (\<forall>ex. annotation_filters cfg env e = Inl ex \<longrightarrow>
                         fst (dashboard cfg env req st) = Propagated ex)
                    \<and> (\<forall>afs. annotation_filters cfg env e = Inr afs \<longrightarrow>
                         (\<forall>ex. getIssuesFromFilters env pk
                                 (getDefaultFilters env cfg (userEntityRef_of u) @ afs) cfg = Inl ex \<longrightarrow>
                            fst (dashboard cfg env req st) = Propagated ex)
                       \<and> (\<forall>fi ex. getIssuesFromFilters env pk
                                 (getDefaultFilters env cfg (userEntityRef_of u) @ afs) cfg = Inr fi \<longrightarrow>
                            getIssuesFromComponents env pk (components_of cfg e) cfg = Inl ex \<longrightarrow>
                            fst (dashboard cfg env req st) = Propagated ex)))))
          \<and> (\<forall>ex. getEntityByRef env entityRef token = Inl ex \<longrightarrow>
               dashboard cfg env req st = (Propagated ex, st))"
    if tok: "getToken env = Inr token" for token
  proof (intro conjI allI impI)
    assume "getEntityByRef env entityRef token = Inr None"
    with tok show "fst (dashboard cfg env req st)
        = Responded 500 (ErrorObj (''No entity found for '' @ entityRef))"
      unfolding entityRef_def by (simp add: dashboard_no_entity)
  next
    fix e
    assume "getEntityByRef env entityRef token = Inr (Some e)"
      "annotation e (projectKeyAnnotation cfg) = None
         \<or> annotation e (projectKeyAnnotation cfg) = Some []"
    with tok show "fst (dashboard cfg env req st)
        = Responded 404 (Str (''No jira.com/project-key annotation found for '' @ entityRef))"
      unfolding entityRef_def by (simp add: dashboard_no_key no_project_key_def Let_def)
  next
    fix e pk ex
    assume "getEntityByRef env entityRef token = Inr (Some e)"
      "annotation e (projectKeyAnnotation cfg) = Some pk" "pk \<noteq> []"
      "fst (getProjectResponse env (Some pk) cfg cache_client st) = Inl ex"
    with tok show "fst (dashboard cfg env req st)
        = Responded 404 (ErrorObj (''No Jira project found with key '' @ pk))"
      unfolding entityRef_def by (simp add: dashboard_with_key dashboard_project_throw)
  next
    fix e pk pr ex
    assume "getEntityByRef env entityRef token = Inr (Some e)"
      "annotation e (projectKeyAnnotation cfg) = Some pk" "pk \<noteq> []"
      "fst (getProjectResponse env (Some pk) cfg cache_client st) = Inr pr"
      "getIdentity env req = Inl ex"
    with tok show "fst (dashboard cfg env req st) = Propagated ex"
      unfolding entityRef_def
      by (simp add: dashboard_with_key dashboard_project_resolved dashboard_issues_rejected_identity)
  next
    fix e pk pr u ex
    assume "getEntityByRef env entityRef token = Inr (Some e)"
      "annotation e (projectKeyAnnotation cfg) = Some pk" "pk \<noteq> []"
      "fst (getProjectResponse env (Some pk) cfg cache_client st) = Inr pr"
      "getIdentity env req = Inr u" "annotation_filters cfg env e = Inl ex"
    with tok show "fst (dashboard cfg env req st) = Propagated ex"
      unfolding entityRef_def
      by (simp add: dashboard_with_key dashboard_project_resolved dashboard_issues_rejected_filters)
  next
    fix e pk pr u afs ex
    assume "getEntityByRef env entityRef token = Inr (Some e)"
      "annotation e (projectKeyAnnotation cfg) = Some pk" "pk \<noteq> []"
      "fst (getProjectResponse env (Some pk) cfg cache_client st) = Inr pr"
      "getIdentity env req = Inr u" "annotation_filters cfg env e = Inr afs"
      "getIssuesFromFilters env pk (getDefaultFilters env cfg (userEntityRef_of u) @ afs) cfg = Inl ex"
    with tok show "fst (dashboard cfg env req st) = Propagated ex"
      unfolding entityRef_def
      by (simp add: dashboard_with_key dashboard_project_resolved
          dashboard_issues_rejected_filter_query)
  next
    fix e pk pr u afs fi ex
    assume "getEntityByRef env entityRef token = Inr (Some e)"
      "annotation e (projectKeyAnnotation cfg) = Some pk" "pk \<noteq> []"
      "fst (getProjectResponse env (Some pk) cfg cache_client st) = Inr pr"
      "getIdentity env req = Inr u" "annotation_filters cfg env e = Inr afs"
      "getIssuesFromFilters env pk (getDefaultFilters env cfg (userEntityRef_of u) @ afs) cfg = Inr fi"
      "getIssuesFromComponents env pk (components_of cfg e) cfg = Inl ex"
    with tok show "fst (dashboard cfg env req st) = Propagated ex"
      unfolding entityRef_def
      by (simp add: dashboard_with_key dashboard_project_resolved
          dashboard_issues_rejected_component_query [of env req u cfg e afs pk fi ex])
  next
    fix ex
    assume "getEntityByRef env entityRef token = Inl ex"
    with tok show "dashboard cfg env req st = (Propagated ex, st)"
      unfolding entityRef_def by (simp add: dashboard_rejected_catalog)
  qed
  have notoken: "\<forall>ex. getToken env = Inl ex \<longrightarrow> dashboard cfg env req st = (Propagated ex, st)"
    by (simp add: dashboard_rejected_token)
  have statuses: "\<forall>s b. fst (dashboard cfg env req st) = Responded s b \<longrightarrow>
      s = 500 \<or> s = 404 \<or> s = 200"
    using dashboard_statuses by blast
  have either: "(\<exists>s b. fst (dashboard cfg env req st) = Responded s b)
            \<or> (\<exists>ex. fst (dashboard cfg env req st) = Propagated ex)"
    by (rule dashboard_outcome)
  have origin: "\<forall>ex. fst (dashboard cfg env req st) = Propagated ex \<longrightarrow>
             getToken env = Inl ex
           \<or> (\<exists>token. getEntityByRef env entityRef token = Inl ex)
           \<or> getIdentity env req = Inl ex
           \<or> (\<exists>e. annotation_filters cfg env e = Inl ex)
           \<or> (\<exists>pk fs. getIssuesFromFilters env pk fs cfg = Inl ex)
           \<or> (\<exists>pk cs. getIssuesFromComponents env pk cs cfg = Inl ex)"
  proof (intro allI impI)
    fix ex assume pg: "fst (dashboard cfg env req st) = Propagated ex"
    from dashboard_propagatedD [OF pg]
    consider "getToken env = Inl ex"
      | token where "getEntityByRef env entityRef token = Inl ex"
      | e pk pr st1 where "fst (dashboard_issues cfg env req e pk pr st1) = Propagated ex"
      unfolding entityRef_def by blast
    then show "getToken env = Inl ex
           \<or> (\<exists>token. getEntityByRef env entityRef token = Inl ex)
           \<or> getIdentity env req = Inl ex
           \<or> (\<exists>e. annotation_filters cfg env e = Inl ex)
           \<or> (\<exists>pk fs. getIssuesFromFilters env pk fs cfg = Inl ex)
           \<or> (\<exists>pk cs. getIssuesFromComponents env pk cs cfg = Inl ex)"
    proof cases
      case 1 then show ?thesis by simp
    next
      case 2 then show ?thesis by blast
    next
      case 3
      from dashboard_issues_propagatedD [OF 3] show ?thesis by blast
    qed
  qed
  from answered have answered': "\<forall>token. getToken env = Inr token \<longrightarrow>
            (getEntityByRef env entityRef token = Inr None \<longrightarrow>
               fst (dashboard cfg env req st)
                 = Responded 500 (ErrorObj (''No entity found for '' @ entityRef)))
          \<and> (\<forall>e. getEntityByRef env entityRef token = Inr (Some e) \<longrightarrow>
               (annotation e (projectKeyAnnotation cfg) = None
                  \<or> annotation e (projectKeyAnnotation cfg) = Some [] \<longrightarrow>
                fst (dashboard cfg env req st)
                  = Responded 404 (Str (''No jira.com/project-key annotation found for '' @ entityRef)))
             \<and> (\<forall>pk ex. annotation e (projectKeyAnnotation cfg) = Some pk \<longrightarrow> pk \<noteq> [] \<longrightarrow>
                   fst (getProjectResponse env (Some pk) cfg cache_client st) = Inl ex \<longrightarrow>
                   fst (dashboard cfg env req st)
                     = Responded 404 (ErrorObj (''No Jira project found with key '' @ pk)))
             \<and> (\<forall>pk pr. annotation e (projectKeyAnnotation cfg) = Some pk \<longrightarrow> pk \<noteq> [] \<longrightarrow>
                   fst (getProjectResponse env (Some pk) cfg cache_client st) = Inr pr \<longrightarrow>
                   (\<forall>ex. getIdentity env req = Inl ex \<longrightarrow>
                      fst (dashboard cfg env req st) = Propagated ex)
                 \<and> (\<forall>u. getIdentity env req = Inr u \<longrightarrow>
                      (\<forall>ex. annotation_filters cfg env e = Inl ex \<longrightarrow>
                         fst (dashboard cfg env req st) = Propagated ex)
                    \<and> (\<forall>afs. annotation_filters cfg env e = Inr afs \<longrightarrow>
                         (\<forall>ex. getIssuesFromFilters env pk
                                 (getDefaultFilters env cfg (userEntityRef_of u) @ afs) cfg = Inl ex \<longrightarrow>
                            fst (dashboard cfg env req st) = Propagated ex)
                       \<and> (\<forall>fi ex. getIssuesFromFilters env pk
                                 (getDefaultFilters env cfg (userEntityRef_of u) @ afs) cfg = Inr fi \<longrightarrow>
                            getIssuesFromComponents env pk (components_of cfg e) cfg = Inl ex \<longrightarrow>
                            fst (dashboard cfg env req st) = Propagated ex)))))
          \<and> (\<forall>ex. getEntityByRef env entityRef token = Inl ex \<longrightarrow>
               dashboard cfg env req st = (Propagated ex, st))"
    by (intro allI impI)
  show ?thesis
    by (intro conjI; (rule only500 | rule answered' | rule notoken | rule statuses | rule either | rule origin))
qed

theorem dashboard_not_found_statuses_witness:
  "getToken (env0 0 None) = Inr ''token''
   \<and> getEntityByRef (env0 0 None) ''component:default/web'' ''token'' = Inr None
   \<and> fst (dashboard cfg0 (env0 0 None) req0 st0)
       = Responded 500 (ErrorObj ''No entity found for component:default/web'')
   \<and> (\<exists>token. getToken (env0 0 None) = Inr token
        \<and> getEntityByRef (env0 0 None) ''component:default/web'' token = Inr None)
   \<and> getEntityByRef (env0 0 (Some ent_nokey)) ''component:default/web'' ''token'' = Inr (Some ent_nokey)
   \<and> annotation ent_nokey (projectKeyAnnotation cfg0) = None
   \<and> fst (dashboard cfg0 (env0 0 (Some ent_nokey)) req0 st0)
       = Responded 404 (Str ''No jira.com/project-key annotation found for component:default/web'')
   \<and> annotation ent_plain (projectKeyAnnotation cfg0) = Some ''PRJ''
   \<and> fst (getProjectResponse (env_down 0 (Some ent_plain)) (Some ''PRJ'') cfg0 cache_client st0)
       = Inl (Error ''Not Found'')
   \<and> fst (dashboard cfg0 (env_down 0 (Some ent_plain)) req0 st0)
       = Responded 404 (ErrorObj ''No Jira project found with key PRJ'')
   \<and> getToken ((env0 0 None)\<lparr>getToken := Inl (Error ''no token'')\<rparr>) = Inl (Error ''no token'')
   \<and> dashboard cfg0 ((env0 0 None)\<lparr>getToken := Inl (Error ''no token'')\<rparr>) req0 st0
       = (Propagated (Error ''no token''), st0)
   \<and> getIssuesFromFilters
         ((env0 0 (Some ent_plain))\<lparr>getIssuesFromFilters := (\<lambda>k fs c. Inl (Error ''jql''))\<rparr>)
         ''PRJ'' ([flt ''open''] @ []) cfg0 = Inl (Error ''jql'')
   \<and> fst (dashboard cfg0
         ((env0 0 (Some ent_plain))\<lparr>getIssuesFromFilters := (\<lambda>k fs c. Inl (Error ''jql''))\<rparr>)
         req0 st0) = Propagated (Error ''jql'')"
proof -
  let ?envT = "(env0 0 None)\<lparr>getToken := Inl (Error ''no token'')\<rparr>"
  let ?envQ = "(env0 0 (Some ent_plain))\<lparr>getIssuesFromFilters := (\<lambda>k fs c. Inl (Error ''jql''))\<rparr>"
  have look: "fst (getProjectResponse (env_down 0 (Some ent_plain)) (Some ''PRJ'') cfg0 cache_client st0)
       = Inl (Error ''Not Found'')"
    by (simp add: getProjectResponse_def cache_get_def st0_def env_down_basics)
  have a: "fst (dashboard cfg0 (env0 0 None) req0 st0)
       = Responded 500 (ErrorObj (''No entity found for '' @ ''component:default/web''))"
    using dashboard_not_found_statuses [of cfg0 "env0 0 None" req0 st0,
        THEN conjunct2, THEN conjunct1]
    unfolding env0_basics by blast
  have b: "fst (dashboard cfg0 (env0 0 (Some ent_nokey)) req0 st0)
       = Responded 404 (Str (''No jira.com/project-key annotation found for '' @ ''component:default/web''))"
    using dashboard_not_found_statuses [of cfg0 "env0 0 (Some ent_nokey)" req0 st0,
        THEN conjunct2, THEN conjunct1]
      example_annotations(1)
    unfolding env0_basics by blast
  have c: "fst (dashboard cfg0 (env_down 0 (Some ent_plain)) req0 st0)
       = Responded 404 (ErrorObj (''No Jira project found with key '' @ ''PRJ''))"
    using dashboard_not_found_statuses [of cfg0 "env_down 0 (Some ent_plain)" req0 st0,
        THEN conjunct2, THEN conjunct1]
      example_annotations(2) look
    unfolding env_down_basics by blast
  have d: "\<exists>token. getToken (env0 0 None) = Inr token
        \<and> getEntityByRef (env0 0 None) ''component:default/web'' token = Inr None"
    using dashboard_not_found_statuses [of cfg0 "env0 0 None" req0 st0, THEN conjunct1] a
    unfolding env0_basics by blast
  have tokT: "getToken ?envT = Inl (Error ''no token'')" by (simp add: env0_def)
  have e: "dashboard cfg0 ?envT req0 st0 = (Propagated (Error ''no token''), st0)"
    using dashboard_not_found_statuses [of cfg0 ?envT req0 st0,
        THEN conjunct2, THEN conjunct2, THEN conjunct1] tokT
    by blast
  have envQ: "getToken ?envQ = Inr ''token''"
    "stringifyEntityRef ?envQ (kind req0) (namespace req0) (name req0) = ''component:default/web''"
    "getEntityByRef ?envQ ''component:default/web'' ''token'' = Inr (Some ent_plain)"
    "getIdentity ?envQ req0 = Inr None"
    "annotation_filters cfg0 ?envQ ent_plain = Inr []"
    "getDefaultFilters ?envQ cfg0 (userEntityRef_of None) = [flt ''open'']"
    "getIssuesFromFilters ?envQ ''PRJ'' ([flt ''open''] @ []) cfg0 = Inl (Error ''jql'')"
    by (simp_all add: env0_def req0_def annotation_filters_def annotation_def ent_plain_def
        cfg0_def userEntityRef_of_def)
  have lookQ: "fst (getProjectResponse ?envQ (Some ''PRJ'') cfg0 cache_client st0) = Inr (Some proj0)"
    by (simp add: getProjectResponse_def cache_get_def st0_def env0_def)
  have ne: "''PRJ'' \<noteq> []" by simp
  note Q = dashboard_not_found_statuses [of cfg0 ?envQ req0 st0,
        THEN conjunct2, THEN conjunct1, unfolded envQ(2), rule_format, OF envQ(1),
        THEN conjunct2, THEN conjunct1, rule_format, OF envQ(3),
        THEN conjunct2, THEN conjunct2, rule_format, OF example_annotations(2) ne lookQ,
        THEN conjunct2, rule_format, OF envQ(4),
        THEN conjunct2, rule_format, OF envQ(5),
        THEN conjunct1, rule_format, unfolded envQ(6), OF envQ(7)]
  from a b c d e Q look tokT envQ(7) show ?thesis
    by (simp add: env0_basics example_annotations)
qed

subsection \<open>An entity without the project key\<close>

text \<open>
  Claim C2: for an entity whose annotations lack the project-key annotation, the dashboard
  endpoint answers 404 and calls the issue tracker neither for the project nor for issues:
  the one thing it does is log the message it answers with, and the cache is left as it was.
\<close>

theorem dashboard_no_project_key:
  fixes cfg env req st
  defines "entityRef \<equiv> stringifyEntityRef env (kind req) (namespace req) (name req)"
  assumes "getToken env = Inr token"
    and "getEntityByRef env entityRef token = Inr (Some e)"
    and "annotation e (projectKeyAnnotation cfg) = None"
  shows "fst (dashboard cfg env req st)
           = Responded 404 (Str (''No jira.com/project-key annotation found for '' @ entityRef))
       \<and> tracker_calls (new_events st (snd (dashboard cfg env req st))) = []
       \<and> new_events st (snd (dashboard cfg env req st))
           = [Log Info (''No jira.com/project-key annotation found for '' @ entityRef)]
       \<and> cache (snd (dashboard cfg env req st)) = cache st"
proof -
  have "dashboard cfg env req st = no_project_key entityRef st"
    using assms(2-4) unfolding entityRef_def by (simp add: dashboard_no_key)
  then show ?thesis
    by (simp add: no_project_key_def Let_def tracker_calls_def emit_def new_events_def)
qed

theorem dashboard_no_project_key_witness:
  "getToken (env0 0 (Some ent_nokey)) = Inr ''token''
   \<and> getEntityByRef (env0 0 (Some ent_nokey)) ''component:default/web'' ''token'' = Inr (Some ent_nokey)
   \<and> annotation ent_nokey (projectKeyAnnotation cfg0) = None
   \<and> fst (dashboard cfg0 (env0 0 (Some ent_nokey)) req0 st0)
        = Responded 404 (Str ''No jira.com/project-key annotation found for component:default/web'')
   \<and> tracker_calls (new_events st0 (snd (dashboard cfg0 (env0 0 (Some ent_nokey)) req0 st0))) = []"
  using dashboard_no_project_key [of "env0 0 (Some ent_nokey)" "''token''" req0 ent_nokey cfg0 st0]
  by (simp add: env0_basics example_annotations tracker_calls_def)

subsection \<open>The issues of a successful request\<close>

text \<open>
  Claim C4: a dashboard request that succeeds returns as data the issues of the
  filter-based query followed by the issues of the component-based query, so the length of
  the data is the sum of the two counts; an issue that both queries return is there twice.
  This holds for every entity, whatever its components annotation.
\<close>

theorem dashboard_data_is_both_results:
  assumes "fst (dashboard cfg env req st) = Responded 200 (JiraResponse p issues)"
  shows "\<exists>token e pk u afs fi ci.
      getToken env = Inr token
    \<and> getEntityByRef env (stringifyEntityRef env (kind req) (namespace req) (name req)) token
        = Inr (Some e)
    \<and> annotation e (projectKeyAnnotation cfg) = Some pk
    \<and> getIdentity env req = Inr u
    \<and> annotation_filters cfg env e = Inr afs
    \<and> getIssuesFromFilters env pk (getDefaultFilters env cfg (userEntityRef_of u) @ afs) cfg = Inr fi
    \<and> getIssuesFromComponents env pk (components_of cfg e) cfg = Inr ci
    \<and> issues = fi @ ci
    \<and> length issues = length fi + length ci"
proof -
  from dashboard_200D [OF assms] obtain token e pk where
    reach: "getToken env = Inr token"
      "getEntityByRef env (stringifyEntityRef env (kind req) (namespace req) (name req)) token
        = Inr (Some e)"
      "annotation e (projectKeyAnnotation cfg) = Some pk"
    and eq: "dashboard cfg env req st = dashboard_project cfg env req e pk st"
    by blast
  from assms eq have "fst (dashboard_project cfg env req e pk st) = Responded 200 (JiraResponse p issues)"
    by simp
  from dashboard_project_success [OF this] obtain u afs fi ci where
    "getIdentity env req = Inr u" "annotation_filters cfg env e = Inr afs"
    "getIssuesFromFilters env pk (getDefaultFilters env cfg (userEntityRef_of u) @ afs) cfg = Inr fi"
    "getIssuesFromComponents env pk (components_of cfg e) cfg = Inr ci"
    "issues = fi @ ci"
    by auto
  with reach show ?thesis by auto
qed

theorem dashboard_data_is_both_results_witness:
  "fst (dashboard cfg0 (env0 0 (Some ent_full)) req0 st0)
     = Responded 200 (JiraResponse (Some proj0) [Issue ''PRJ-1'', Issue ''PRJ-2'', Issue ''PRJ-2''])
   \<and> (\<exists>fs cs fi ci.
        getIssuesFromFilters (env0 0 (Some ent_full)) ''PRJ'' fs cfg0 = Inr fi
      \<and> getIssuesFromComponents (env0 0 (Some ent_full)) ''PRJ'' cs cfg0 = Inr ci
      \<and> [Issue ''PRJ-1'', Issue ''PRJ-2'', Issue ''PRJ-2''] = fi @ ci
      \<and> length [Issue ''PRJ-1'', Issue ''PRJ-2'', Issue ''PRJ-2''] = length fi + length ci)"
proof -
  have run: "fst (dashboard cfg0 (env0 0 (Some ent_full)) req0 st0)
     = Responded 200 (JiraResponse (Some proj0) [Issue ''PRJ-1'', Issue ''PRJ-2'', Issue ''PRJ-2''])"
    by (simp add: env0_full_run)
  from dashboard_data_is_both_results [OF run] obtain e pk u afs fi ci where
    e: "getEntityByRef (env0 0 (Some ent_full))
          (stringifyEntityRef (env0 0 (Some ent_full)) (kind req0) (namespace req0) (name req0))
          ''token'' = Inr (Some e)"
      "annotation e (projectKeyAnnotation cfg0) = Some pk"
    and q: "getIssuesFromFilters (env0 0 (Some ent_full)) pk
          (getDefaultFilters (env0 0 (Some ent_full)) cfg0 (userEntityRef_of u) @ afs) cfg0 = Inr fi"
      "getIssuesFromComponents (env0 0 (Some ent_full)) pk (components_of cfg0 e) cfg0 = Inr ci"
      "[Issue ''PRJ-1'', Issue ''PRJ-2'', Issue ''PRJ-2''] = fi @ ci"
      "length [Issue ''PRJ-1'', Issue ''PRJ-2'', Issue ''PRJ-2''] = length fi + length ci"
    by (auto simp: env0_basics)
  from e have "e = ent_full" by (simp add: env0_basics)
  with e(2) have "pk = ''PRJ''" by (simp add: example_annotations)
  with q run show ?thesis by blast
qed

subsection \<open>The components of both annotations\<close>

text \<open>
  Claim C5: when the entity has both the primary and the Roadie components annotation, the
  component list is the comma-split primary value followed by the comma-split Roadie value.
  Every component query of the request is for the project key and this list, and a request
  that succeeds has made that query.
\<close>

theorem component_query_gets_both_annotations:
  assumes "getToken env = Inr token"
    and "getEntityByRef env (stringifyEntityRef env (kind req) (namespace req) (name req)) token
           = Inr (Some e)"
    and "annotation e (projectKeyAnnotation cfg) = Some pk" and "pk \<noteq> []"
    and "annotation e (componentsAnnotation cfg) = Some a"
    and "annotation e (componentRoadieAnnotation cfg) = Some b"
  shows "components_of cfg e = split_comma a @ split_comma b
    \<and> (\<forall>k cs. IssuesByComponents k cs \<in> set (new_events st (snd (dashboard cfg env req st)))
          \<longrightarrow> k = pk \<and> cs = split_comma a @ split_comma b)
    \<and> (\<forall>body. fst (dashboard cfg env req st) = Responded 200 body
          \<longrightarrow> IssuesByComponents pk (split_comma a @ split_comma b)
                \<in> set (new_events st (snd (dashboard cfg env req st))))"
proof -
  have eq: "dashboard cfg env req st = dashboard_project cfg env req e pk st"
    using assms(1-4) by (rule dashboard_with_key)
  have comps: "components_of cfg e = split_comma a @ split_comma b"
    using assms(5,6) by (simp add: components_of_def)
  from dashboard_project_events [of st cfg env req e pk] obtain evs where
    evs: "new_events st (snd (dashboard_project cfg env req e pk st))
       = (if cache_get (now env) (Some pk) st = None then [GetProject (Some pk)] else []) @ evs"
      "\<forall>k cs. IssuesByComponents k cs \<in> set evs \<longrightarrow> k = pk \<and> cs = components_of cfg e"
    by blast
  have all: "\<forall>k cs. IssuesByComponents k cs \<in> set (new_events st (snd (dashboard cfg env req st)))
          \<longrightarrow> k = pk \<and> cs = split_comma a @ split_comma b"
    using evs comps eq by (auto split: if_splits)
  have ok: "\<forall>body. fst (dashboard cfg env req st) = Responded 200 body
          \<longrightarrow> IssuesByComponents pk (split_comma a @ split_comma b)
                \<in> set (new_events st (snd (dashboard cfg env req st)))"
    using dashboard_project_success [of cfg env req e pk st] comps eq by auto
  from comps all ok show ?thesis by blast
qed

theorem component_query_gets_both_annotations_witness:
  "getToken (env0 0 (Some ent_full)) = Inr ''token''
   \<and> getEntityByRef (env0 0 (Some ent_full)) ''component:default/web'' ''token'' = Inr (Some ent_full)
   \<and> annotation ent_full (projectKeyAnnotation cfg0) = Some ''PRJ'' \<and> ''PRJ'' \<noteq> []
   \<and> annotation ent_full (componentsAnnotation cfg0) = Some ''A''
   \<and> annotation ent_full (componentRoadieAnnotation cfg0) = Some ''B,C''
   \<and> fst (dashboard cfg0 (env0 0 (Some ent_full)) req0 st0)
       = Responded 200 (JiraResponse (Some proj0) [Issue ''PRJ-1'', Issue ''PRJ-2'', Issue ''PRJ-2''])
   \<and> components_of cfg0 ent_full = [''A'', ''B'', ''C'']
   \<and> IssuesByComponents ''PRJ'' [''A'', ''B'', ''C'']
       \<in> set (new_events st0 (snd (dashboard cfg0 (env0 0 (Some ent_full)) req0 st0)))"
proof -
  have a: "annotation ent_full (componentsAnnotation cfg0) = Some ''A''"
    and b: "annotation ent_full (componentRoadieAnnotation cfg0) = Some ''B,C''"
    by (simp_all add: annotation_def ent_full_def cfg0_def)
  have ne: "''PRJ'' \<noteq> []" by simp
  have run: "fst (dashboard cfg0 (env0 0 (Some ent_full)) req0 st0)
       = Responded 200 (JiraResponse (Some proj0) [Issue ''PRJ-1'', Issue ''PRJ-2'', Issue ''PRJ-2''])"
    by (simp add: env0_full_run)
  have sp: "split_comma ''A'' @ split_comma ''B,C'' = [''A'', ''B'', ''C'']" by simp
  note T = component_query_gets_both_annotations [of "env0 0 (Some ent_full)" "''token''" req0
      ent_full cfg0 "''PRJ''" "''A''" "''B,C''" st0, unfolded env0_basics sp,
      OF refl refl example_annotations(3) ne a b]
  from T run have "components_of cfg0 ent_full = [''A'', ''B'', ''C'']"
    "IssuesByComponents ''PRJ'' [''A'', ''B'', ''C'']
       \<in> set (new_events st0 (snd (dashboard cfg0 (env0 0 (Some ent_full)) req0 st0)))"
    by blast+
  with a b run show ?thesis by (simp add: env0_basics example_annotations)
qed

subsection \<open>The order of the filters\<close>

text \<open>
  Claim C7: the filter list of the filter-based issue query is the default filters, built
  from the configuration and the caller's user entity reference, followed by the filters
  resolved from the entity's filter annotation (none when the annotation is absent). Every
  filter query of the request has this list, and a request that succeeds has made it.
\<close>

theorem default_filters_come_first:
  assumes "getToken env = Inr token"
    and "getEntityByRef env (stringifyEntityRef env (kind req) (namespace req) (name req)) token
           = Inr (Some e)"
    and "annotation e (projectKeyAnnotation cfg) = Some pk" and "pk \<noteq> []"
  shows "(\<forall>k fs. IssuesByFilters k fs \<in> set (new_events st (snd (dashboard cfg env req st)))
           \<longrightarrow> k = pk \<and>
             (\<exists>u afs. getIdentity env req = Inr u \<and> annotation_filters cfg env e = Inr afs
                \<and> fs = getDefaultFilters env cfg (userEntityRef_of u) @ afs))
    \<and> (\<forall>body. fst (dashboard cfg env req st) = Responded 200 body
           \<longrightarrow> (\<exists>u afs. getIdentity env req = Inr u \<and> annotation_filters cfg env e = Inr afs
                \<and> IssuesByFilters pk (getDefaultFilters env cfg (userEntityRef_of u) @ afs)
                     \<in> set (new_events st (snd (dashboard cfg env req st)))))"
proof -
  have eq: "dashboard cfg env req st = dashboard_project cfg env req e pk st"
    using assms by (rule dashboard_with_key)
  from dashboard_project_events [of st cfg env req e pk] obtain evs where
    evs: "new_events st (snd (dashboard_project cfg env req e pk st))
       = (if cache_get (now env) (Some pk) st = None then [GetProject (Some pk)] else []) @ evs"
      "\<forall>k fs. IssuesByFilters k fs \<in> set evs \<longrightarrow> k = pk \<and>
           (\<exists>u afs. getIdentity env req = Inr u \<and> annotation_filters cfg env e = Inr afs
              \<and> fs = getDefaultFilters env cfg (userEntityRef_of u) @ afs)"
    by blast
  have sub: "set (new_events st (snd (dashboard cfg env req st)))
      \<subseteq> insert (GetProject (Some pk)) (set evs)"
    using evs(1) eq by (cases "cache_get (now env) (Some pk) st") auto
  have all: "\<forall>k fs. IssuesByFilters k fs \<in> set (new_events st (snd (dashboard cfg env req st)))
           \<longrightarrow> k = pk \<and>
             (\<exists>u afs. getIdentity env req = Inr u \<and> annotation_filters cfg env e = Inr afs
                \<and> fs = getDefaultFilters env cfg (userEntityRef_of u) @ afs)"
  proof (intro allI impI)
    fix k fs
    assume "IssuesByFilters k fs \<in> set (new_events st (snd (dashboard cfg env req st)))"
    with sub have "IssuesByFilters k fs \<in> set evs" by auto
    with evs(2) show "k = pk \<and>
             (\<exists>u afs. getIdentity env req = Inr u \<and> annotation_filters cfg env e = Inr afs
                \<and> fs = getDefaultFilters env cfg (userEntityRef_of u) @ afs)"
      by simp
  qed
  have ok: "\<forall>body. fst (dashboard cfg env req st) = Responded 200 body
           \<longrightarrow> (\<exists>u afs. getIdentity env req = Inr u \<and> annotation_filters cfg env e = Inr afs
                \<and> IssuesByFilters pk (getDefaultFilters env cfg (userEntityRef_of u) @ afs)
                     \<in> set (new_events st (snd (dashboard cfg env req st))))"
  proof (intro allI impI)
    fix body assume "fst (dashboard cfg env req st) = Responded 200 body"
    with eq have "fst (dashboard_project cfg env req e pk st) = Responded 200 body" by simp
    from dashboard_project_success [OF this] eq
    show "\<exists>u afs. getIdentity env req = Inr u \<and> annotation_filters cfg env e = Inr afs
                \<and> IssuesByFilters pk (getDefaultFilters env cfg (userEntityRef_of u) @ afs)
                     \<in> set (new_events st (snd (dashboard cfg env req st)))"
      by auto
  qed
  from all ok show ?thesis by blast
qed

theorem default_filters_come_first_witness:
  "(getToken (env0 0 (Some ent_full)) = Inr ''token''
   \<and> getEntityByRef (env0 0 (Some ent_full)) ''component:default/web'' ''token'' = Inr (Some ent_full)
   \<and> annotation ent_full (projectKeyAnnotation cfg0) = Some ''PRJ'' \<and> ''PRJ'' \<noteq> [])
   \<and> IssuesByFilters ''PRJ'' [flt ''open'', flt ''f1'']
       \<in> set (new_events st0 (snd (dashboard cfg0 (env0 0 (Some ent_full)) req0 st0)))
   \<and> (\<exists>u afs. getIdentity (env0 0 (Some ent_full)) req0 = Inr u
        \<and> annotation_filters cfg0 (env0 0 (Some ent_full)) ent_full = Inr afs
        \<and> [flt ''open'', flt ''f1'']
            = getDefaultFilters (env0 0 (Some ent_full)) cfg0 (userEntityRef_of u) @ afs)"
proof -
  have ne: "''PRJ'' \<noteq> []" by simp
  have ev: "IssuesByFilters ''PRJ'' [flt ''open'', flt ''f1'']
       \<in> set (new_events st0 (snd (dashboard cfg0 (env0 0 (Some ent_full)) req0 st0)))"
    unfolding env0_full_run by (simp add: new_events_def st0_def)
  note T = default_filters_come_first [of "env0 0 (Some ent_full)" "''token''" req0
      ent_full cfg0 "''PRJ''" st0, unfolded env0_basics,
      OF refl refl example_annotations(3) ne]
  from T [THEN conjunct1, rule_format, OF ev]
  have c: "\<exists>u afs. getIdentity (env0 0 (Some ent_full)) req0 = Inr u
        \<and> annotation_filters cfg0 (env0 0 (Some ent_full)) ent_full = Inr afs
        \<and> [flt ''open'', flt ''f1'']
            = getDefaultFilters (env0 0 (Some ent_full)) cfg0 (userEntityRef_of u) @ afs"
    by (rule conjunct2)
  have h: "getToken (env0 0 (Some ent_full)) = Inr ''token''
   \<and> getEntityByRef (env0 0 (Some ent_full)) ''component:default/web'' ''token'' = Inr (Some ent_full)
   \<and> annotation ent_full (projectKeyAnnotation cfg0) = Some ''PRJ'' \<and> ''PRJ'' \<noteq> []"
    by (simp add: env0_basics example_annotations)
  from h ev c show ?thesis by blast
qed

subsection \<open>A request without a caller identity\<close>



subsection \<open>The project lookup across requests\<close>

text \<open>
  Claim C3 says that two requests for one project key within the 60 seconds of the time to
  live call the issue tracker's get-project at most once, the second being served from the
  cache. Two lookups one second apart that overlap both miss the cache and both call the
  issue tracker, though it answers and the project is cached; and a lookup that fails is
  not cached, so with the issue tracker rejecting, two requests handled one after the
  other, one second apart, call it twice as well:
\<close>

theorem overlapping_or_failed_lookups_call_twice:
  "lookup_key_of Dashboard cfg0 (env0 0 (Some ent_plain)) req0 = Some (Some ''PRJ'')
   \<and> lookup_key_of Dashboard cfg0 (env0 1000 (Some ent_plain)) req0 = Some (Some ''PRJ'')
   \<and> now (env0 1000 (Some ent_plain)) \<le> now (env0 0 (Some ent_plain)) + DEFAULT_TTL
   \<and> project_calls (Some ''PRJ'') (trace st0) = 0
   \<and> interleaved_lookups (env0 0 (Some ent_plain)) (env0 1000 (Some ent_plain))
        (Some ''PRJ'') cfg0 cache_client st0
       = (Inr (Some proj0), Inr (Some proj0),
          \<lparr>cache = [Some ''PRJ'' \<mapsto> (proj0, 61000)],
           trace = [GetProject (Some ''PRJ''), GetProject (Some ''PRJ'')]\<rparr>)
   \<and> project_calls (Some ''PRJ'')
        [GetProject (Some ''PRJ''), GetProject (Some ''PRJ'')] = 2
   \<and> lookup_key_of Dashboard cfg0 (env_down 0 (Some ent_plain)) req0 = Some (Some ''PRJ'')
   \<and> lookup_key_of Dashboard cfg0 (env_down 1000 (Some ent_plain)) req0 = Some (Some ''PRJ'')
   \<and> project_calls (Some ''PRJ'')
        (trace (snd (handle Dashboard cfg0 (env_down 1000 (Some ent_plain)) req0
          (snd (handle Dashboard cfg0 (env_down 0 (Some ent_plain)) req0 st0))))) = 2"
  by (simp add: handler_defs example_defs project_calls_def lookup_key_of_def
      interleaved_lookups_def getProjectResponse_start_def getProjectResponse_finish_def)

text \<open>
  Claim C3, as amended. The time to live is 60000 milliseconds. Take requests to the
  dashboard or the avatar endpoint that look up the same project key and are handled one
  after the other. If the first request's lookup yields a project (from the cache or from
  the issue tracker) and the second request comes no later than the time to live after the
  first, get-project is called at most once over both; if the first request missed the
  cache, it makes the one call and the second request makes none, and a third request
  that comes after the time to live has elapsed since the first calls get-project again.
  If the first request misses the cache and its lookup yields no project, nothing is
  stored, and a second request that comes no earlier than the first makes a second call.
\<close>

theorem project_lookup_cached_within_ttl:
  fixes cfg env1 env2 env3 req1 req2 req3 r1 r2 r3 st k
  defines "st1 \<equiv> snd (handle r1 cfg env1 req1 st)"
    and "st2 \<equiv> snd (handle r2 cfg env2 req2 (snd (handle r1 cfg env1 req1 st)))"
    and "st3 \<equiv> snd (handle r3 cfg env3 req3
                    (snd (handle r2 cfg env2 req2 (snd (handle r1 cfg env1 req1 st)))))"
  assumes k1: "lookup_key_of r1 cfg env1 req1 = Some k"
    and k2: "lookup_key_of r2 cfg env2 req2 = Some k"
    and k3: "lookup_key_of r3 cfg env3 req3 = Some k"
  shows "DEFAULT_TTL = 60000
    \<and> (\<forall>p. fst (getProjectResponse env1 k cfg cache_client st) = Inr (Some p) \<longrightarrow>
            now env2 \<le> now env1 + DEFAULT_TTL \<longrightarrow>
            project_calls k (trace st2) \<le> project_calls k (trace st) + 1
          \<and> (cache_get (now env1) k st = None \<longrightarrow>
                project_calls k (trace st1) = project_calls k (trace st) + 1
              \<and> project_calls k (trace st2) = project_calls k (trace st1)
              \<and> (now env1 + DEFAULT_TTL < now env3 \<longrightarrow>
                    project_calls k (trace st3) = project_calls k (trace st2) + 1)))
    \<and> (cache_get (now env1) k st = None \<longrightarrow>
          (\<forall>p. fst (getProjectResponse env1 k cfg cache_client st) \<noteq> Inr (Some p)) \<longrightarrow>
          now env1 \<le> now env2 \<longrightarrow>
          cache st1 = cache st
        \<and> project_calls k (trace st1) = project_calls k (trace st) + 1
        \<and> project_calls k (trace st2) = project_calls k (trace st) + 2)"
proof -
  let ?g1 = "snd (getProjectResponse env1 k cfg cache_client st)"
  have c1: "cache st1 = cache ?g1"
    and n1: "project_calls k (trace st1) = project_calls k (trace ?g1)"
    unfolding st1_def using handle_lookup_store [OF k1] by simp_all
  have c2: "cache st2 = cache (snd (getProjectResponse env2 k cfg cache_client st1))"
    unfolding st2_def st1_def using handle_lookup_store(1) [OF k2] by simp
  have n2: "project_calls k (trace st2) = project_calls k (trace st1)
      + (if cache_get (now env2) k st1 = None then 1 else 0)"
    unfolding st2_def st1_def
    using handle_lookup_store(2) [OF k2] by (simp add: getProjectResponse_calls)
  have n3: "project_calls k (trace st3) = project_calls k (trace st2)
      + (if cache_get (now env3) k st2 = None then 1 else 0)"
    unfolding st3_def st2_def
    using handle_lookup_store(2) [OF k3] by (simp add: getProjectResponse_calls)
  have ttl: "DEFAULT_TTL = 60000" by (simp add: DEFAULT_TTL_def)
  have yields: "project_calls k (trace st2) \<le> project_calls k (trace st) + 1
          \<and> (cache_get (now env1) k st = None \<longrightarrow>
                project_calls k (trace st1) = project_calls k (trace st) + 1
              \<and> project_calls k (trace st2) = project_calls k (trace st1)
              \<and> (now env1 + DEFAULT_TTL < now env3 \<longrightarrow>
                    project_calls k (trace st3) = project_calls k (trace st2) + 1))"
    if first: "fst (getProjectResponse env1 k cfg cache_client st) = Inr (Some p)"
      and within: "now env2 \<le> now env1 + DEFAULT_TTL" for p
  proof (cases "cache_get (now env1) k st")
    case None
    from getProjectResponse_miss [OF None first] c1
    have stored: "cache st1 k = Some (p, now env1 + DEFAULT_TTL)"
      by (simp add: cache_client_def)
    with within have hit2: "cache_get (now env2) k st1 = Some p"
      by (simp add: cache_get_stored)
    with c2 have "cache st2 = cache st1" by (simp add: getProjectResponse_hit)
    with stored have "cache st2 k = Some (p, now env1 + DEFAULT_TTL)" by simp
    then have "cache_get (now env3) k st2 = None" if "now env1 + DEFAULT_TTL < now env3"
      using that by (simp add: cache_get_stored)
    with n1 n2 n3 None hit2 show ?thesis by (simp add: getProjectResponse_calls)
  next
    case (Some q)
    then have "?g1 = st" by (simp add: getProjectResponse_hit)
    with n1 n2 Some show ?thesis by simp
  qed
  have yields': "\<forall>p. fst (getProjectResponse env1 k cfg cache_client st) = Inr (Some p) \<longrightarrow>
            now env2 \<le> now env1 + DEFAULT_TTL \<longrightarrow>
            project_calls k (trace st2) \<le> project_calls k (trace st) + 1
          \<and> (cache_get (now env1) k st = None \<longrightarrow>
                project_calls k (trace st1) = project_calls k (trace st) + 1
              \<and> project_calls k (trace st2) = project_calls k (trace st1)
              \<and> (now env1 + DEFAULT_TTL < now env3 \<longrightarrow>
                    project_calls k (trace st3) = project_calls k (trace st2) + 1))"
  proof (intro allI impI)
    fix p
    assume "fst (getProjectResponse env1 k cfg cache_client st) = Inr (Some p)"
      "now env2 \<le> now env1 + DEFAULT_TTL"
    then show "project_calls k (trace st2) \<le> project_calls k (trace st) + 1
          \<and> (cache_get (now env1) k st = None \<longrightarrow>
                project_calls k (trace st1) = project_calls k (trace st) + 1
              \<and> project_calls k (trace st2) = project_calls k (trace st1)
              \<and> (now env1 + DEFAULT_TTL < now env3 \<longrightarrow>
                    project_calls k (trace st3) = project_calls k (trace st2) + 1))"
      by (rule yields)
  qed
  have nothing': "cache_get (now env1) k st = None \<longrightarrow>
          (\<forall>p. fst (getProjectResponse env1 k cfg cache_client st) \<noteq> Inr (Some p)) \<longrightarrow>
          now env1 \<le> now env2 \<longrightarrow>
          cache st1 = cache st
        \<and> project_calls k (trace st1) = project_calls k (trace st) + 1
        \<and> project_calls k (trace st2) = project_calls k (trace st) + 2"
  proof (intro impI)
    assume miss: "cache_get (now env1) k st = None"
      and none: "\<forall>p. fst (getProjectResponse env1 k cfg cache_client st) \<noteq> Inr (Some p)"
      and later: "now env1 \<le> now env2"
    from getProjectResponse_nothing [OF none] c1 have same: "cache st1 = cache st" by simp
    from cache_get_later [OF miss later same] have "cache_get (now env2) k st1 = None" .
    with n1 n2 miss same show "cache st1 = cache st
        \<and> project_calls k (trace st1) = project_calls k (trace st) + 1
        \<and> project_calls k (trace st2) = project_calls k (trace st) + 2"
      by (simp add: getProjectResponse_calls)
  qed
  show ?thesis
    by (intro conjI; (rule ttl | rule yields' | rule nothing'))
qed

theorem project_lookup_cached_within_ttl_witness:
  "(lookup_key_of Dashboard cfg0 (env0 0 (Some ent_plain)) req0 = Some (Some ''PRJ'')
    \<and> lookup_key_of Avatar cfg0 (env0 30000 (Some ent_plain)) req0 = Some (Some ''PRJ'')
    \<and> lookup_key_of Dashboard cfg0 (env0 60001 (Some ent_plain)) req0 = Some (Some ''PRJ'')
    \<and> fst (getProjectResponse (env0 0 (Some ent_plain)) (Some ''PRJ'') cfg0 cache_client st0)
         = Inr (Some proj0)
    \<and> now (env0 30000 (Some ent_plain)) \<le> now (env0 0 (Some ent_plain)) + DEFAULT_TTL
    \<and> cache_get (now (env0 0 (Some ent_plain))) (Some ''PRJ'') st0 = None
    \<and> now (env0 0 (Some ent_plain)) + DEFAULT_TTL < now (env0 60001 (Some ent_plain)))
   \<and> project_calls (Some ''PRJ'') (trace st0) = 0
   \<and> project_calls (Some ''PRJ'')
        (trace (snd (handle Dashboard cfg0 (env0 0 (Some ent_plain)) req0 st0))) = 1
   \<and> project_calls (Some ''PRJ'')
        (trace (snd (handle Avatar cfg0 (env0 30000 (Some ent_plain)) req0
          (snd (handle Dashboard cfg0 (env0 0 (Some ent_plain)) req0 st0))))) = 1
   \<and> project_calls (Some ''PRJ'')
        (trace (snd (handle Dashboard cfg0 (env0 60001 (Some ent_plain)) req0
          (snd (handle Avatar cfg0 (env0 30000 (Some ent_plain)) req0
            (snd (handle Dashboard cfg0 (env0 0 (Some ent_plain)) req0 st0))))))) = 2
   \<and> (lookup_key_of Dashboard cfg0 (env_down 0 (Some ent_plain)) req0 = Some (Some ''PRJ'')
      \<and> lookup_key_of Avatar cfg0 (env_down 1000 (Some ent_plain)) req0 = Some (Some ''PRJ'')
      \<and> cache_get (now (env_down 0 (Some ent_plain))) (Some ''PRJ'') st0 = None
      \<and> fst (getProjectResponse (env_down 0 (Some ent_plain)) (Some ''PRJ'') cfg0 cache_client st0)
           = Inl (Error ''Not Found'')
      \<and> now (env_down 0 (Some ent_plain)) \<le> now (env_down 1000 (Some ent_plain)))
   \<and> project_calls (Some ''PRJ'')
        (trace (snd (handle Avatar cfg0 (env_down 1000 (Some ent_plain)) req0
          (snd (handle Dashboard cfg0 (env_down 0 (Some ent_plain)) req0 st0))))) = 2"
proof -
  have k: "lookup_key_of r cfg0 (env0 t (Some ent_plain)) req0 = Some (Some ''PRJ'')" for r t
    by (cases r) (simp_all add: lookup_key_of_def env0_basics example_annotations)
  have kd: "lookup_key_of r cfg0 (env_down t (Some ent_plain)) req0 = Some (Some ''PRJ'')" for r t
    by (cases r) (simp_all add: lookup_key_of_def env_down_basics example_annotations)
  have first: "fst (getProjectResponse (env0 0 (Some ent_plain)) (Some ''PRJ'') cfg0 cache_client st0)
         = Inr (Some proj0)"
    by (simp add: getProjectResponse_def cache_get_def st0_def env0_def)
  have failed: "fst (getProjectResponse (env_down 0 (Some ent_plain)) (Some ''PRJ'') cfg0
        cache_client st0) = Inl (Error ''Not Found'')"
    by (simp add: getProjectResponse_def cache_get_def st0_def env_down_basics)
  then have none: "\<forall>p. fst (getProjectResponse (env_down 0 (Some ent_plain)) (Some ''PRJ'') cfg0
        cache_client st0) \<noteq> Inr (Some p)"
    by simp
  have within: "now (env0 30000 (Some ent_plain)) \<le> now (env0 0 (Some ent_plain)) + DEFAULT_TTL"
    by (simp add: env0_basics DEFAULT_TTL_def)
  have miss: "cache_get (now (env0 0 (Some ent_plain))) (Some ''PRJ'') st0 = None"
    by (simp add: cache_get_def st0_def)
  have missd: "cache_get (now (env_down 0 (Some ent_plain))) (Some ''PRJ'') st0 = None"
    by (simp add: cache_get_def st0_def)
  have after: "now (env0 0 (Some ent_plain)) + DEFAULT_TTL < now (env0 60001 (Some ent_plain))"
    by (simp add: env0_basics DEFAULT_TTL_def)
  have later: "now (env_down 0 (Some ent_plain)) \<le> now (env_down 1000 (Some ent_plain))"
    by (simp add: env_down_basics)
  have zero: "project_calls (Some ''PRJ'') (trace st0) = 0"
    by (simp add: project_calls_def st0_def)
  note T = project_lookup_cached_within_ttl [OF k [of Dashboard 0] k [of Avatar 30000]
      k [of Dashboard 60001], of st0, THEN conjunct2, THEN conjunct1, rule_format,
      OF first within, THEN conjunct2, rule_format, OF miss]
  note F = project_lookup_cached_within_ttl [OF kd [of Dashboard 0] kd [of Avatar 1000]
      kd [of Dashboard 1000], of st0, THEN conjunct2, THEN conjunct2, rule_format,
      OF missd none [rule_format] later]
  from T after zero have
    "project_calls (Some ''PRJ'')
        (trace (snd (handle Dashboard cfg0 (env0 0 (Some ent_plain)) req0 st0))) = 1"
    "project_calls (Some ''PRJ'')
        (trace (snd (handle Avatar cfg0 (env0 30000 (Some ent_plain)) req0
          (snd (handle Dashboard cfg0 (env0 0 (Some ent_plain)) req0 st0))))) = 1"
    "project_calls (Some ''PRJ'')
        (trace (snd (handle Dashboard cfg0 (env0 60001 (Some ent_plain)) req0
          (snd (handle Avatar cfg0 (env0 30000 (Some ent_plain)) req0
            (snd (handle Dashboard cfg0 (env0 0 (Some ent_plain)) req0 st0))))))) = 2"
    by simp_all
  moreover from F zero have
    "project_calls (Some ''PRJ'')
        (trace (snd (handle Avatar cfg0 (env_down 1000 (Some ent_plain)) req0
          (snd (handle Dashboard cfg0 (env_down 0 (Some ent_plain)) req0 st0))))) = 2"
    by simp
  ultimately show ?thesis
    using k kd first failed within miss missd after later zero by simp
qed

subsection \<open>The component query without components\<close>

text \<open>
  Claim C6 says that the component-based query is made if and only if the concatenated
  component list is not empty. The handler's test \<^verbatim>\<open>if (components)\<close> holds for the
  empty array too: for an entity with neither components annotation the list is empty and
  the query is made all the same, and its issues are appended to the data.
\<close>

theorem component_query_made_for_no_components:
  "annotation ent_plain (componentsAnnotation cfg0) = None
   \<and> annotation ent_plain (componentRoadieAnnotation cfg0) = None
   \<and> components_of cfg0 ent_plain = []
   \<and> dashboard cfg0 (env0 0 (Some ent_plain)) req0 st0 =
       (Responded 200 (JiraResponse (Some proj0) [Issue ''PRJ-1'', Issue ''PRJ-2'', Issue ''PRJ-2'']),
        \<lparr>cache = [Some ''PRJ'' \<mapsto> (proj0, 60000)],
         trace = [GetProject (Some ''PRJ''), Log Warn ''Could not find user identity'',
            IssuesByFilters ''PRJ'' [flt ''open''],
            IssuesByComponents ''PRJ'' []]\<rparr>)"
  by (simp add: handler_defs cfg0_def req0_def ent_plain_def env0_def st0_def)

subsection \<open>The avatar handler and a rejected project lookup\<close>

text \<open>
  Claim C8 says that a failed project lookup makes the avatar endpoint answer 400 with no
  stream opened. The avatar handler awaits the lookup outside any \<^verbatim>\<open>try\<close>: when the
  issue tracker rejects, the rejection leaves the handler, which answers nothing; no stream
  is opened. The dashboard handler catches the same rejection and answers 404.
\<close>

theorem avatar_rejected_lookup_propagates:
  "fst (getProjectResponse (env_down 0 (Some ent_plain)) (Some ''PRJ'') cfg0 cache_client st0)
     = Inl (Error ''Not Found'')
   \<and> avatar cfg0 (env_down 0 (Some ent_plain)) req0 st0
     = (Propagated (Error ''Not Found''), \<lparr>cache = Map.empty, trace = [GetProject (Some ''PRJ'')]\<rparr>)
   \<and> fst (dashboard cfg0 (env_down 0 (Some ent_plain)) req0 st0)
     = Responded 404 (ErrorObj ''No Jira project found with key PRJ'')"
  by (simp add: handler_defs cfg0_def req0_def ent_plain_def env0_def env_down_def st0_def)

subsection \<open>The avatar handler and a missing project key\<close>

text \<open>
  Claim C10: the avatar handler never checks that the project-key annotation is there. For
  an entity without it the handler goes on to the project lookup with an undefined key:
  it never answers 404, on a cache miss the issue tracker is asked for the project
  \<open>undefined\<close>, and a lookup without a project answers 400 for the key \<open>undefined\<close>. The
  dashboard handler answers the same request with 404.
\<close>

theorem avatar_never_checks_project_key:
  fixes cfg env req st
  defines "entityRef \<equiv> stringifyEntityRef env (kind req) (namespace req) (name req)"
  assumes "getToken env = Inr token"
    and "getEntityByRef env entityRef token = Inr (Some e)"
    and "annotation e (projectKeyAnnotation cfg) = None"
  shows "avatar cfg env req st = avatar_project cfg env None st
    \<and> (\<forall>s b. fst (avatar cfg env req st) = Responded s b \<longrightarrow> s \<noteq> 404)
    \<and> (cache_get (now env) None st = None \<longrightarrow>
          GetProject None \<in> set (new_events st (snd (avatar cfg env req st))))
    \<and> (fst (getProjectResponse env None cfg cache_client st) = Inr None \<longrightarrow>
          fst (avatar cfg env req st)
            = Responded 400 (ErrorObj ''No Jira project found for project key undefined''))
    \<and> fst (dashboard cfg env req st)
         = Responded 404 (Str (''No jira.com/project-key annotation found for '' @ entityRef))"
proof -
  have eq: "avatar cfg env req st = avatar_project cfg env None st"
    using assms(2-4) unfolding entityRef_def by (simp add: avatar_with_entity)
  have no404: "\<forall>s b. fst (avatar cfg env req st) = Responded s b \<longrightarrow> s \<noteq> 404"
    using eq avatar_project_status [of cfg env None st] by auto
  have ev: "cache_get (now env) None st = None \<longrightarrow>
          GetProject None \<in> set (new_events st (snd (avatar cfg env req st)))"
    using eq avatar_project_lookup_event [of env None st cfg] by simp
  have bad: "fst (getProjectResponse env None cfg cache_client st) = Inr None \<longrightarrow>
          fst (avatar cfg env req st)
            = Responded 400 (ErrorObj ''No Jira project found for project key undefined'')"
    using eq avatar_project_cases [of env None cfg st] by (simp add: show_key_def)
  have dash: "fst (dashboard cfg env req st)
         = Responded 404 (Str (''No jira.com/project-key annotation found for '' @ entityRef))"
    using assms(2-4) unfolding entityRef_def
    by (simp add: dashboard_no_key no_project_key_def Let_def)
  from eq no404 ev bad dash show ?thesis by blast
qed

theorem avatar_never_checks_project_key_witness:
  "(getToken (env0 0 (Some ent_nokey)) = Inr ''token''
    \<and> getEntityByRef (env0 0 (Some ent_nokey)) ''component:default/web'' ''token''
        = Inr (Some ent_nokey)
    \<and> annotation ent_nokey (projectKeyAnnotation cfg0) = None
    \<and> cache_get (now (env0 0 (Some ent_nokey))) None st0 = None)
   \<and> avatar cfg0 (env0 0 (Some ent_nokey)) req0 st0
       = avatar_project cfg0 (env0 0 (Some ent_nokey)) None st0
   \<and> GetProject None \<in> set (new_events st0 (snd (avatar cfg0 (env0 0 (Some ent_nokey)) req0 st0)))
   \<and> fst (dashboard cfg0 (env0 0 (Some ent_nokey)) req0 st0)
       = Responded 404 (Str ''No jira.com/project-key annotation found for component:default/web'')"
proof -
  have miss: "cache_get (now (env0 0 (Some ent_nokey))) None st0 = None"
    by (simp add: cache_get_def st0_def)
  note T = avatar_never_checks_project_key [of "env0 0 (Some ent_nokey)" "''token''" req0
      ent_nokey cfg0 st0, unfolded env0_basics, OF refl refl example_annotations(1)]
  have a: "avatar cfg0 (env0 0 (Some ent_nokey)) req0 st0
       = avatar_project cfg0 (env0 0 (Some ent_nokey)) None st0"
    using T by (rule conjunct1)
  have b: "GetProject None
      \<in> set (new_events st0 (snd (avatar cfg0 (env0 0 (Some ent_nokey)) req0 st0)))"
    using T [THEN conjunct2, THEN conjunct2, THEN conjunct1] miss by (simp add: env0_basics)
  have c: "fst (dashboard cfg0 (env0 0 (Some ent_nokey)) req0 st0)
       = Responded 404 (Str ''No jira.com/project-key annotation found for component:default/web'')"
    using T [THEN conjunct2, THEN conjunct2, THEN conjunct2, THEN conjunct2] by simp
  have h: "getToken (env0 0 (Some ent_nokey)) = Inr ''token''
    \<and> getEntityByRef (env0 0 (Some ent_nokey)) ''component:default/web'' ''token''
        = Inr (Some ent_nokey)
    \<and> annotation ent_nokey (projectKeyAnnotation cfg0) = None
    \<and> cache_get (now (env0 0 (Some ent_nokey))) None st0 = None"
    using miss by (simp add: env0_basics example_annotations)
  from h a b c show ?thesis by blast
qed

end
